theory Spec2Isabelle
  imports Main
begin

section \<open>JavaScript strings\<close>

text \<open>
  A JavaScript string is a sequence of UTF-16 code units; a code unit is modelled by
  its number.  \<open>js\<close> turns an ASCII literal into such a sequence.
\<close>

type_synonym jsstring = "nat list"

definition js :: "string \<Rightarrow> jsstring" where
  "js s = map of_char s"

text \<open>
  \<open>String.prototype.trim\<close> removes the code units of the ECMAScript productions
  WhiteSpace and LineTerminator from both ends.
\<close>

definition isWhiteSpace :: "nat \<Rightarrow> bool" where
  "isWhiteSpace c \<longleftrightarrow>
     c \<in> {0x9, 0xA, 0xB, 0xC, 0xD, 0x20, 0xA0, 0x1680, 0x2028, 0x2029, 0x202F, 0x205F,
          0x3000, 0xFEFF}
     \<or> (0x2000 \<le> c \<and> c \<le> 0x200A)"

definition trim :: "jsstring \<Rightarrow> jsstring" where
  "trim s = rev (dropWhile isWhiteSpace (rev (dropWhile isWhiteSpace s)))"

section \<open>Values obtained from JSON\<close>

text \<open>
  A number of JavaScript is an IEEE double.  The controller never computes with one:
  it tests whether it is falsy, converts it to a string, and serializes it.  A number
  is therefore modelled by what these operations see of it: zero (of either sign),
  plus or minus infinity (which \<open>JSON.parse\<close> returns for a literal beyond the range of
  doubles), or a finite number other than zero, carried as the text that
  \<open>Number::toString\<close> produces for it (\<open>1.5\<close>, \<open>-305\<close>, \<open>1e+21\<close>).  \<open>JSON.parse\<close>
  never returns \<open>NaN\<close>.
\<close>

datatype number =
    NZero
  | NFinite jsstring
  | NInfinity
  | NNegInfinity

text \<open>
  The values \<open>JSON.parse\<close> can return.  An object is the list of its own properties
  in enumeration order, each key occurring once (a lookup takes the first entry for
  a key).  The value \<open>undefined\<close>, which only arises from reading a property that
  does not exist, is \<open>None\<close> of \<open>json option\<close>.
\<close>

datatype json =
    JNull
  | JBool bool
  | JNum number
  | JStr jsstring
  | JArr "json list"
  | JObj "(jsstring \<times> json) list"

text \<open>
  What a \<open>throw\<close> carries.  The first three are instances of \<open>Error\<close> and have a
  \<open>message\<close>; \<open>NotAnError\<close> stands for any other thrown value.
\<close>

datatype thrown =
    Error jsstring
  | TypeError jsstring
  | SyntaxError jsstring
  | NotAnError

fun instanceofError :: "thrown \<Rightarrow> bool" where
  "instanceofError NotAnError = False"
| "instanceofError _ = True"

fun message :: "thrown \<Rightarrow> jsstring" where
  "message (Error m) = m"
| "message (TypeError m) = m"
| "message (SyntaxError m) = m"
| "message NotAnError = []"

text \<open>The conversion \<open>Boolean(v)\<close>, which \<open>!v\<close>, \<open>v || w\<close> and \<open>if (v)\<close> apply.\<close>

fun truthy :: "json \<Rightarrow> bool" where
  "truthy JNull = False"
| "truthy (JBool b) = b"
| "truthy (JNum n) = (n \<noteq> NZero)"
| "truthy (JStr s) = (s \<noteq> [])"
| "truthy (JArr xs) = True"
| "truthy (JObj kvs) = True"

fun truthy_opt :: "json option \<Rightarrow> bool" where
  "truthy_opt None = False"
| "truthy_opt (Some v) = truthy v"

text \<open>\<open>a || b\<close> where \<open>a\<close> may be \<open>undefined\<close>.\<close>

fun or_else :: "json option \<Rightarrow> json \<Rightarrow> json" where
  "or_else None w = w"
| "or_else (Some v) w = (if truthy v then v else w)"

text \<open>
  Reading a property \<open>v.k\<close>.  On \<open>null\<close> the engine throws a \<open>TypeError\<close> (the
  wording of the message is the engine's; V8's is used).  The controller reads only
  the names \<open>barcode\<close>, \<open>current_status\<close>, \<open>sender\<close>, \<open>receiver\<close>, \<open>events\<close>,
  \<open>raw_response\<close>, \<open>error\<close>, \<open>date\<close>, \<open>time\<close>, \<open>description\<close> and \<open>location\<close>
  this way; no built-in prototype defines one of them, so on a number, boolean,
  string or array the result is \<open>undefined\<close>.
\<close>

definition null_read_message :: "jsstring \<Rightarrow> jsstring" where
  "null_read_message k = js ''Cannot read properties of null (reading '' @ [0x27] @ k @ [0x27] @ js '')''"

fun get :: "json \<Rightarrow> jsstring \<Rightarrow> thrown + json option" where
  "get JNull k = Inl (TypeError (null_read_message k))"
| "get (JObj kvs) k = Inr (map_of kvs k)"
| "get _ k = Inr None"

text \<open>
  The number that is the length of an array or of a string: a natural number below
  \<open>2^53\<close>, which \<open>Number::toString\<close> writes with all its decimal digits.
\<close>

fun digits :: "nat \<Rightarrow> jsstring" where
  "digits n = (if n < 10 then [0x30 + n] else digits (n div 10) @ [0x30 + n mod 10])"

declare digits.simps [simp del]

definition length_number :: "nat \<Rightarrow> number" where
  "length_number n = (if n = 0 then NZero else NFinite (digits n))"

text \<open>
  \<open>v.length\<close> for a value that is not \<open>null\<close>: arrays and strings have it built in,
  an object has it when it is one of its own properties.
\<close>

fun get_length :: "json \<Rightarrow> json option" where
  "get_length (JArr xs) = Some (JNum (length_number (length xs)))"
| "get_length (JStr s) = Some (JNum (length_number (length s)))"
| "get_length (JObj kvs) = map_of kvs (js ''length'')"
| "get_length _ = None"

subsection \<open>Conversion to string\<close>

text \<open>\<open>Number::toString\<close>; the text of a finite number is the one the value carries.\<close>

fun number_toString :: "number \<Rightarrow> jsstring" where
  "number_toString NZero = js ''0''"
| "number_toString (NFinite t) = t"
| "number_toString NInfinity = js ''Infinity''"
| "number_toString NNegInfinity = js ''-Infinity''"

text \<open>
  \<open>ToString(v)\<close>, applied when a value is assigned to \<open>textContent\<close> or passed to
  \<open>new Error\<close>.  An array joins its elements with commas, \<open>null\<close> elements giving
  the empty string.  An ordinary object gives \<open>[object Object]\<close>, unless it has an
  own property \<open>toString\<close>: that property, coming from JSON, is not callable, the
  inherited \<open>valueOf\<close> returns the object itself, and the conversion throws.
\<close>

definition not_primitive_message :: jsstring where
  "not_primitive_message = js ''Cannot convert object to primitive value''"

fun toString :: "json \<Rightarrow> thrown + jsstring"
  and join :: "json list \<Rightarrow> thrown + jsstring" where
  "toString JNull = Inr (js ''null'')"
| "toString (JBool b) = Inr (if b then js ''true'' else js ''false'')"
| "toString (JNum n) = Inr (number_toString n)"
| "toString (JStr s) = Inr s"
| "toString (JArr xs) = join xs"
| "toString (JObj kvs) =
     (if map_of kvs (js ''toString'') \<noteq> None then Inl (TypeError not_primitive_message)
      else Inr (js ''[object Object]''))"
| "join [] = Inr []"
| "join (x # xs) =
     (case (if x = JNull then Inr [] else toString x) of
        Inl e \<Rightarrow> Inl e
      | Inr s \<Rightarrow>
          (if xs = [] then Inr s
           else (case join xs of Inl e \<Rightarrow> Inl e | Inr t \<Rightarrow> Inr (s @ [0x2C] @ t))))"

subsection \<open>\<open>JSON.stringify\<close>\<close>

definition hex_digit :: "nat \<Rightarrow> nat" where
  "hex_digit n = (if n < 10 then 0x30 + n else 0x61 + (n - 10))"

definition unicode_escape :: "nat \<Rightarrow> jsstring" where
  "unicode_escape c =
     [0x5C, 0x75, hex_digit (c div 4096 mod 16), hex_digit (c div 256 mod 16),
      hex_digit (c div 16 mod 16), hex_digit (c mod 16)]"

definition is_lead_surrogate :: "nat \<Rightarrow> bool" where
  "is_lead_surrogate c \<longleftrightarrow> 0xD800 \<le> c \<and> c \<le> 0xDBFF"

definition is_trail_surrogate :: "nat \<Rightarrow> bool" where
  "is_trail_surrogate c \<longleftrightarrow> 0xDC00 \<le> c \<and> c \<le> 0xDFFF"

text \<open>The body of \<open>QuoteJSONString\<close>: the escapes of one string, without the quotes.\<close>

fun quote_units :: "jsstring \<Rightarrow> jsstring" where
  "quote_units [] = []"
| "quote_units (c # cs) =
     (if c = 0x8 then [0x5C, 0x62] @ quote_units cs
      else if c = 0x9 then [0x5C, 0x74] @ quote_units cs
      else if c = 0xA then [0x5C, 0x6E] @ quote_units cs
      else if c = 0xC then [0x5C, 0x66] @ quote_units cs
      else if c = 0xD then [0x5C, 0x72] @ quote_units cs
      else if c = 0x22 then [0x5C, 0x22] @ quote_units cs
      else if c = 0x5C then [0x5C, 0x5C] @ quote_units cs
      else if c < 0x20 then unicode_escape c @ quote_units cs
      else if is_lead_surrogate c then
        (case cs of
           [] \<Rightarrow> unicode_escape c
         | d # ds \<Rightarrow>
             (if is_trail_surrogate d then [c, d] @ quote_units ds
              else unicode_escape c @ quote_units cs))
      else if is_trail_surrogate c then unicode_escape c @ quote_units cs
      else c # quote_units cs)"

definition quoteJSONString :: "jsstring \<Rightarrow> jsstring" where
  "quoteJSONString s = [0x22] @ quote_units s @ [0x22]"

fun intercalate :: "jsstring \<Rightarrow> jsstring list \<Rightarrow> jsstring" where
  "intercalate sep [] = []"
| "intercalate sep [s] = s"
| "intercalate sep (s # t # ts) = s @ sep @ intercalate sep (t # ts)"

text \<open>
  \<open>SerializeJSONProperty\<close> with the gap \<open>gap\<close> and the current indentation
  \<open>indent\<close>.  A value from JSON has no \<open>toJSON\<close> method and no \<open>undefined\<close>
  member, so every element and every property is written.
\<close>

fun serialize :: "jsstring \<Rightarrow> jsstring \<Rightarrow> json \<Rightarrow> jsstring" where
  "serialize gap indent JNull = js ''null''"
| "serialize gap indent (JBool b) = (if b then js ''true'' else js ''false'')"
| "serialize gap indent (JNum n) =
     (if n = NInfinity \<or> n = NNegInfinity then js ''null'' else number_toString n)"
| "serialize gap indent (JStr s) = quoteJSONString s"
| "serialize gap indent (JArr xs) =
     (let stepback = indent; indent = indent @ gap;
          partial = map (serialize gap indent) xs
      in if partial = [] then js ''[]''
         else if gap = [] then [0x5B] @ intercalate [0x2C] partial @ [0x5D]
         else [0x5B, 0xA] @ indent @ intercalate ([0x2C, 0xA] @ indent) partial
                @ [0xA] @ stepback @ [0x5D])"
| "serialize gap indent (JObj kvs) =
     (let stepback = indent; indent = indent @ gap;
          partial = map (\<lambda>(k, v). quoteJSONString k @ [0x3A] @ (if gap = [] then [] else [0x20])
                                     @ serialize gap indent v) kvs
      in if partial = [] then js ''{}''
         else if gap = [] then [0x7B] @ intercalate [0x2C] partial @ [0x7D]
         else [0x7B, 0xA] @ indent @ intercalate ([0x2C, 0xA] @ indent) partial
                @ [0xA] @ stepback @ [0x7D])"

text \<open>\<open>JSON.stringify(v, null, space)\<close> for a number of spaces up to ten.\<close>

definition JSON_stringify :: "json \<Rightarrow> nat \<Rightarrow> jsstring" where
  "JSON_stringify v space = serialize (replicate (min space 10) 0x20) [] v"

section \<open>The page\<close>

subsection \<open>Nodes built by the renderers\<close>

text \<open>
  An element carries its tag, its \<open>className\<close>, its \<open>style.animationDelay\<close> and its
  children.  The delay is kept as the exact product in hundredths of a second
  (\<open>index * 0.08\<close> is \<open>index * 8\<close>); the text the browser stores for it comes from
  floating-point formatting and is not modelled.
\<close>

datatype node =
    Text jsstring
  | Element string string "nat option" "node list"

definition createElement :: "string \<Rightarrow> node" where
  "createElement tag = Element tag [] None []"

fun set_className :: "node \<Rightarrow> string \<Rightarrow> node" where
  "set_className (Element tag cls delay cs) c = Element tag c delay cs"
| "set_className (Text s) c = Text s"

fun set_animationDelay :: "node \<Rightarrow> nat \<Rightarrow> node" where
  "set_animationDelay (Element tag cls delay cs) n = Element tag cls (Some n) cs"
| "set_animationDelay (Text s) n = Text s"

text \<open>Assigning \<open>textContent\<close> replaces the children by one text node, or by none.\<close>

fun set_textContent :: "node \<Rightarrow> jsstring \<Rightarrow> node" where
  "set_textContent (Element tag cls delay cs) s =
     Element tag cls delay (if s = [] then [] else [Text s])"
| "set_textContent (Text s') s = Text s"

fun appendChild :: "node \<Rightarrow> node \<Rightarrow> node" where
  "appendChild (Element tag cls delay cs) c = Element tag cls delay (cs @ [c])"
| "appendChild (Text s) c = Text s"

subsection \<open>The elements the controller holds\<close>

text \<open>
  Each handle of lines 2 to 11 of app.js is \<open>None\<close> when the page has no such element.
  The barcode field is looked up inside the form and the \<open>pre\<close> inside the raw
  section, so they are fields of those elements.  A region whose only property in
  use is \<open>hidden\<close> is that boolean; the summary and timeline containers are their
  lists of children.  The handles are taken to be distinct elements, none of them
  inside the summary container, the timeline container or the \<open>pre\<close>.
\<close>

record input_el =
  input_value :: jsstring
  has_error :: bool

record form_el =
  barcode :: "input_el option"

record box_el =
  textContent :: jsstring
  hidden :: bool

record raw_el =
  raw_hidden :: bool
  pre :: "jsstring option"

record page =
  hasFetch :: bool
  form :: "form_el option"
  resultsPanel :: "bool option"
  summaryContainer :: "node list option"
  timelineContainer :: "node list option"
  rawSection :: "raw_el option"
  errorBox :: "box_el option"
  successBox :: "box_el option"
  loadingOverlay :: "bool option"
  initial_tracking :: "jsstring option"
  initial_error :: "jsstring option"

text \<open>\<open>form?.querySelector('#barcode')\<close> and \<open>rawSection?.querySelector('pre')\<close>.\<close>

definition barcodeInput :: "page \<Rightarrow> input_el option" where
  "barcodeInput p = (case form p of None \<Rightarrow> None | Some f \<Rightarrow> barcode f)"

definition rawPre :: "page \<Rightarrow> jsstring option" where
  "rawPre p = (case rawSection p of None \<Rightarrow> None | Some r \<Rightarrow> pre r)"

text \<open>\<open>barcodeInput.classList.toggle('has-error', b)\<close>, for a field that exists.\<close>

definition toggle_has_error :: "bool \<Rightarrow> page \<Rightarrow> page" where
  "toggle_has_error b p =
     (case form p of
        None \<Rightarrow> p
      | Some f \<Rightarrow>
          (case barcode f of
             None \<Rightarrow> p
           | Some i \<Rightarrow> p\<lparr>form := Some (f\<lparr>barcode := Some (i\<lparr>has_error := b\<rparr>)\<rparr>)\<rparr>))"

subsection \<open>Calls that may throw\<close>

text \<open>
  A call either returns or throws; in both cases the page is as the call left it,
  since a throw undoes nothing.
\<close>

datatype outcome =
    returned: Returned (page_of: page)
  | Threw (thrown_of: thrown) (page_of: page)

text \<open>Sequencing: the next statement runs only when the previous one returned.\<close>

fun and_then :: "outcome \<Rightarrow> (page \<Rightarrow> outcome) \<Rightarrow> outcome" where
  "and_then (Returned p) f = f p"
| "and_then (Threw e p) f = Threw e p"

section \<open>The texts of app.js\<close>

text \<open>Line 64 of app.js; in English: "No information has been recorded yet"\<close>

definition TIMELINE_EMPTY_TITLE :: jsstring where
  "TIMELINE_EMPTY_TITLE =
     [0x647, 0x646, 0x648, 0x632, 0x20, 0x627, 0x637, 0x644, 0x627, 0x639, 0x627, 0x62A,
      0x6CC, 0x20, 0x62B, 0x628, 0x62A, 0x20, 0x646, 0x634, 0x62F, 0x647, 0x20, 0x627,
      0x633, 0x62A]"

text \<open>Line 66 of app.js; in English: "After the first event for the parcel is recorded, the details are shown in this section."\<close>

definition TIMELINE_EMPTY_MESSAGE :: jsstring where
  "TIMELINE_EMPTY_MESSAGE =
     [0x67E, 0x633, 0x20, 0x627, 0x632, 0x20, 0x62B, 0x628, 0x62A, 0x20, 0x627, 0x648,
      0x644, 0x6CC, 0x646, 0x20, 0x631, 0x648, 0x6CC, 0x62F, 0x627, 0x62F, 0x20, 0x628,
      0x631, 0x627, 0x6CC, 0x20, 0x645, 0x631, 0x633, 0x648, 0x644, 0x647, 0x60C, 0x20,
      0x62C, 0x632, 0x626, 0x6CC, 0x627, 0x62A, 0x20, 0x62F, 0x631, 0x20, 0x627, 0x6CC,
      0x646, 0x20, 0x628, 0x62E, 0x634, 0x20, 0x646, 0x645, 0x627, 0x6CC, 0x634, 0x20,
      0x62F, 0x627, 0x62F, 0x647, 0x20, 0x645, 0x6CC, 0x200C, 0x634, 0x648, 0x62F, 0x2E]"

text \<open>Line 77 of app.js; in English: "Tracking code"\<close>

definition LABEL_BARCODE :: jsstring where
  "LABEL_BARCODE =
     [0x6A9, 0x62F, 0x20, 0x631, 0x647, 0x6AF, 0x6CC, 0x631, 0x6CC]"

text \<open>Line 78 of app.js; in English: "Current status"\<close>

definition LABEL_CURRENT_STATUS :: jsstring where
  "LABEL_CURRENT_STATUS =
     [0x648, 0x636, 0x639, 0x6CC, 0x62A, 0x20, 0x641, 0x639, 0x644, 0x6CC]"

text \<open>Line 79 of app.js; in English: "Sender"\<close>

definition LABEL_SENDER :: jsstring where
  "LABEL_SENDER =
     [0x641, 0x631, 0x633, 0x62A, 0x646, 0x62F, 0x647]"

text \<open>Line 80 of app.js; in English: "Receiver"\<close>

definition LABEL_RECEIVER :: jsstring where
  "LABEL_RECEIVER =
     [0x6AF, 0x6CC, 0x631, 0x646, 0x62F, 0x647]"

text \<open>Line 87 of app.js; in English: "No summary information was found"\<close>

definition SUMMARY_EMPTY_TITLE :: jsstring where
  "SUMMARY_EMPTY_TITLE =
     [0x627, 0x637, 0x644, 0x627, 0x639, 0x627, 0x62A, 0x20, 0x62E, 0x644, 0x627, 0x635,
      0x647, 0x200C, 0x627, 0x6CC, 0x20, 0x6CC, 0x627, 0x641, 0x62A, 0x20, 0x646, 0x634,
      0x62F]"

text \<open>Line 89 of app.js; in English: "After more details are recorded, the status summary will appear in this section."\<close>

definition SUMMARY_EMPTY_MESSAGE :: jsstring where
  "SUMMARY_EMPTY_MESSAGE =
     [0x67E, 0x633, 0x20, 0x627, 0x632, 0x20, 0x62B, 0x628, 0x62A, 0x20, 0x62C, 0x632,
      0x626, 0x6CC, 0x627, 0x62A, 0x20, 0x628, 0x6CC, 0x634, 0x62A, 0x631, 0x60C, 0x20,
      0x62E, 0x644, 0x627, 0x635, 0x647, 0x20, 0x648, 0x636, 0x639, 0x6CC, 0x62A, 0x20,
      0x62F, 0x631, 0x20, 0x627, 0x6CC, 0x646, 0x20, 0x628, 0x62E, 0x634, 0x20, 0x628,
      0x647, 0x20, 0x646, 0x645, 0x627, 0x6CC, 0x634, 0x20, 0x62F, 0x631, 0x62E, 0x648,
      0x627, 0x647, 0x62F, 0x20, 0x622, 0x645, 0x62F, 0x2E]"

text \<open>Line 153 of app.js; in English: "Status unknown"\<close>

definition UNKNOWN_STATUS :: jsstring where
  "UNKNOWN_STATUS =
     [0x648, 0x636, 0x639, 0x6CC, 0x62A, 0x20, 0x646, 0x627, 0x645, 0x634, 0x62E, 0x635]"

text \<open>Line 157 of app.js; in English: "Location unknown"\<close>

definition UNKNOWN_LOCATION :: jsstring where
  "UNKNOWN_LOCATION =
     [0x645, 0x6A9, 0x627, 0x646, 0x20, 0x646, 0x627, 0x645, 0x634, 0x62E, 0x635]"

text \<open>Line 185 of app.js; in English: "The parcel information was updated successfully."\<close>

definition SUCCESS_MESSAGE :: jsstring where
  "SUCCESS_MESSAGE =
     [0x627, 0x637, 0x644, 0x627, 0x639, 0x627, 0x62A, 0x20, 0x645, 0x631, 0x633, 0x648,
      0x644, 0x647, 0x20, 0x628, 0x627, 0x20, 0x645, 0x648, 0x641, 0x642, 0x6CC, 0x62A,
      0x20, 0x628, 0x647, 0x200C, 0x631, 0x648, 0x632, 0x631, 0x633, 0x627, 0x646, 0x6CC,
      0x20, 0x634, 0x62F, 0x2E]"

text \<open>Line 217 of app.js; in English: "Please enter the tracking code."\<close>

definition VALIDATION_MESSAGE :: jsstring where
  "VALIDATION_MESSAGE =
     [0x644, 0x637, 0x641, 0x627, 0x64B, 0x20, 0x6A9, 0x62F, 0x20, 0x631, 0x647, 0x6AF,
      0x6CC, 0x631, 0x6CC, 0x20, 0x631, 0x627, 0x20, 0x648, 0x627, 0x631, 0x62F, 0x20,
      0x6A9, 0x646, 0x6CC, 0x62F, 0x2E]"

text \<open>Line 236 of app.js; in English: "The information cannot be retrieved."\<close>

definition FALLBACK_MESSAGE :: jsstring where
  "FALLBACK_MESSAGE =
     [0x627, 0x645, 0x6A9, 0x627, 0x646, 0x20, 0x62F, 0x631, 0x6CC, 0x627, 0x641, 0x62A,
      0x20, 0x627, 0x637, 0x644, 0x627, 0x639, 0x627, 0x62A, 0x20, 0x648, 0x62C, 0x648,
      0x62F, 0x20, 0x646, 0x62F, 0x627, 0x631, 0x62F, 0x2E]"

text \<open>Line 241 of app.js; in English: "An unknown error occurred."\<close>

definition UNKNOWN_ERROR_MESSAGE :: jsstring where
  "UNKNOWN_ERROR_MESSAGE =
     [0x62E, 0x637, 0x627, 0x6CC, 0x20, 0x646, 0x627, 0x634, 0x646, 0x627, 0x62E, 0x62A,
      0x647, 0x20, 0x631, 0x62E, 0x20, 0x62F, 0x627, 0x62F, 0x2E]"

text \<open>
  The message of the \<open>TypeError\<close> for calling \<open>events.forEach\<close> when that is not a
  function (V8's wording).
\<close>

definition forEach_message :: jsstring where
  "forEach_message = js ''events.forEach is not a function''"

section \<open>State presenter\<close>

definition toggleLoading :: "bool \<Rightarrow> page \<Rightarrow> page" where
  "toggleLoading state p =
     (case loadingOverlay p of
        None \<Rightarrow> p
      | Some h \<Rightarrow> p\<lparr>loadingOverlay := Some (\<not> state)\<rparr>)"

definition clearSuccess :: "page \<Rightarrow> page" where
  "clearSuccess p =
     (case successBox p of
        Some b \<Rightarrow> p\<lparr>successBox := Some (b\<lparr>hidden := True, textContent := []\<rparr>)\<rparr>
      | None \<Rightarrow> p)"

text \<open>
  \<open>showError\<close> is called with string literals, with the message of a caught error
  and, during hydration, with whatever the \<open>initial-error\<close> script holds; hence the
  argument is a JSON value.  Assigning \<open>message || ''\<close> to \<open>textContent\<close> converts it
  to a string, which is the one step that can throw.
\<close>

definition showError :: "json \<Rightarrow> page \<Rightarrow> outcome" where
  "showError msg p =
     (case errorBox p of
        None \<Rightarrow> Returned p
      | Some b \<Rightarrow>
          (case toString (or_else (Some msg) (JStr [])) of
             Inl e \<Rightarrow> Threw e p
           | Inr s \<Rightarrow>
               (let p1 = p\<lparr>errorBox := Some (b\<lparr>textContent := s, hidden := \<not> truthy msg\<rparr>)\<rparr>;
                    p2 = (case barcodeInput p1 of
                            Some i \<Rightarrow> toggle_has_error (truthy msg) p1
                          | None \<Rightarrow> p1);
                    p3 = (if truthy msg \<and> resultsPanel p2 \<noteq> None
                          then p2\<lparr>resultsPanel := Some False\<rparr> else p2)
                in Returned p3)))"

text \<open>\<open>showSuccess\<close> is only ever called with a string literal.\<close>

definition showSuccess :: "jsstring \<Rightarrow> page \<Rightarrow> page" where
  "showSuccess msg p =
     (case successBox p of
        None \<Rightarrow> p
      | Some b \<Rightarrow>
          p\<lparr>successBox :=
              Some (b\<lparr>textContent := (if msg \<noteq> [] then msg else []), hidden := (msg = [])\<rparr>)\<rparr>)"

section \<open>Renderers\<close>

definition timeline_empty_state :: node where
  "timeline_empty_state =
     (let empty = set_className (createElement ''div'') ''empty-state'';
          title = set_textContent (createElement ''h3'') TIMELINE_EMPTY_TITLE;
          msg = set_textContent (createElement ''p'') TIMELINE_EMPTY_MESSAGE
      in appendChild (appendChild empty title) msg)"

definition renderEmpty :: "page \<Rightarrow> page" where
  "renderEmpty p =
     (case timelineContainer p of
        None \<Rightarrow> p
      | Some cs \<Rightarrow> p\<lparr>timelineContainer := Some ([] @ [timeline_empty_state])\<rparr>)"

text \<open>
  \<open>forEach\<close> with a callback that builds one node from an index and an item and
  appends it; a throw of the callback ends the loop.
\<close>

fun forEach_nodes :: "(nat \<Rightarrow> 'a \<Rightarrow> thrown + node) \<Rightarrow> nat \<Rightarrow> 'a list \<Rightarrow> thrown + node list" where
  "forEach_nodes f i [] = Inr []"
| "forEach_nodes f i (x # xs) =
     (case f i x of
        Inl e \<Rightarrow> Inl e
      | Inr n \<Rightarrow> (case forEach_nodes f (Suc i) xs of Inl e \<Rightarrow> Inl e | Inr ns \<Rightarrow> Inr (n # ns)))"

subsection \<open>Summary\<close>

text \<open>The array literal of lines 76 to 81, before the filter.\<close>

definition summary_fields :: "json \<Rightarrow> thrown + (jsstring \<times> json option) list" where
  "summary_fields data =
     (case get data (js ''barcode'') of Inl e \<Rightarrow> Inl e | Inr b \<Rightarrow>
     (case get data (js ''current_status'') of Inl e \<Rightarrow> Inl e | Inr c \<Rightarrow>
     (case get data (js ''sender'') of Inl e \<Rightarrow> Inl e | Inr s \<Rightarrow>
     (case get data (js ''receiver'') of Inl e \<Rightarrow> Inl e | Inr r \<Rightarrow>
        Inr [(LABEL_BARCODE, b), (LABEL_CURRENT_STATUS, c), (LABEL_SENDER, s),
             (LABEL_RECEIVER, r)]))))"

text \<open>
  \<open>.filter((item) => Boolean(item.value))\<close>; an item that passes has a value, which
  is kept without the option.
\<close>

fun filter_items :: "(jsstring \<times> json option) list \<Rightarrow> (jsstring \<times> json) list" where
  "filter_items [] = []"
| "filter_items ((l, None) # xs) = filter_items xs"
| "filter_items ((l, Some v) # xs) = (if truthy v then (l, v) # filter_items xs else filter_items xs)"

definition summary_placeholder :: node where
  "summary_placeholder =
     (let placeholder = set_className (createElement ''div'') ''empty-state'';
          title = set_textContent (createElement ''h3'') SUMMARY_EMPTY_TITLE;
          msg = set_textContent (createElement ''p'') SUMMARY_EMPTY_MESSAGE
      in appendChild (appendChild placeholder title) msg)"

definition summary_item :: "nat \<Rightarrow> jsstring \<times> json \<Rightarrow> thrown + node" where
  "summary_item index item =
     (let wrapper = set_animationDelay
                      (set_className (createElement ''div'') ''summary-item reveal'') (index * 8);
          label = set_textContent
                    (set_className (createElement ''span'') ''summary-label'') (fst item)
      in case toString (snd item) of
           Inl e \<Rightarrow> Inl e
         | Inr s \<Rightarrow>
             (let val = set_textContent
                          (set_className (createElement ''span'') ''summary-value'') s
              in Inr (appendChild (appendChild wrapper label) val)))"

definition renderSummary :: "json \<Rightarrow> page \<Rightarrow> outcome" where
  "renderSummary data p =
     (case summaryContainer p of
        None \<Rightarrow> Returned p
      | Some cs \<Rightarrow>
          (let p1 = p\<lparr>summaryContainer := Some []\<rparr>
           in case summary_fields data of
                Inl e \<Rightarrow> Threw e p1
              | Inr entries \<Rightarrow>
                  (let items = filter_items entries
                   in if length items = 0
                      then Returned (p1\<lparr>summaryContainer := Some ([] @ [summary_placeholder])\<rparr>)
                      else (case forEach_nodes summary_item 0 items of
                              Inl e \<Rightarrow> Threw e p1
                            | Inr fragment \<Rightarrow>
                                Returned (p1\<lparr>summaryContainer := Some ([] @ fragment)\<rparr>)))))"

subsection \<open>Timeline\<close>

text \<open>\<open>event.key || fallback\<close>, converted to a string by the assignment to \<open>textContent\<close>.\<close>

definition event_text :: "json \<Rightarrow> jsstring \<Rightarrow> jsstring \<Rightarrow> thrown + jsstring" where
  "event_text event key fallback =
     (case get event key of
        Inl e \<Rightarrow> Inl e
      | Inr v \<Rightarrow> toString (or_else v (JStr fallback)))"

definition timeline_item :: "nat \<Rightarrow> json \<Rightarrow> thrown + node" where
  "timeline_item index event =
     (let item = set_animationDelay
                   (set_className (createElement ''li'') ''timeline-item reveal'') (index * 6);
          meta = set_className (createElement ''div'') ''timeline-meta'';
          content = set_className (createElement ''div'') ''timeline-content''
      in case event_text event (js ''date'') (js ''-'') of Inl e \<Rightarrow> Inl e | Inr d \<Rightarrow>
        (case event_text event (js ''time'') (js ''-'') of Inl e \<Rightarrow> Inl e | Inr t \<Rightarrow>
        (case event_text event (js ''description'') UNKNOWN_STATUS of Inl e \<Rightarrow> Inl e | Inr ds \<Rightarrow>
        (case event_text event (js ''location'') UNKNOWN_LOCATION of Inl e \<Rightarrow> Inl e | Inr l \<Rightarrow>
          (let date = set_textContent
                        (set_className (createElement ''span'') ''timeline-date'') d;
               time = set_textContent
                        (set_className (createElement ''span'') ''timeline-time'') t;
               title = set_textContent (createElement ''h3'') ds;
               location = set_textContent
                            (set_className (createElement ''p'') ''muted'') l
           in Inr (appendChild
                     (appendChild item (appendChild (appendChild meta date) time))
                     (appendChild (appendChild content title) location)))))))"

text \<open>
  The argument is \<open>None\<close> for \<open>undefined\<close>.  Only an array has a \<open>forEach\<close> method:
  a string or an object with a truthy \<open>length\<close> makes the call throw, after the
  container was emptied and before anything is appended.
\<close>

definition renderTimeline :: "json option \<Rightarrow> page \<Rightarrow> outcome" where
  "renderTimeline events p =
     (case timelineContainer p of
        None \<Rightarrow> Returned p
      | Some cs \<Rightarrow>
          (let p1 = p\<lparr>timelineContainer := Some []\<rparr>
           in case events of
                None \<Rightarrow> Returned (renderEmpty p1)
              | Some ev \<Rightarrow>
                  (if \<not> truthy ev \<or> \<not> truthy_opt (get_length ev) then Returned (renderEmpty p1)
                   else (case ev of
                           JArr xs \<Rightarrow>
                             (case forEach_nodes timeline_item 0 xs of
                                Inl e \<Rightarrow> Threw e p1
                              | Inr items \<Rightarrow>
                                  (let list = set_className (createElement ''ol'') ''timeline-list''
                                   in Returned
                                        (p1\<lparr>timelineContainer :=
                                              Some ([] @ [foldl appendChild list items])\<rparr>)))
                         | _ \<Rightarrow> Threw (TypeError forEach_message) p1))))"

subsection \<open>Raw response\<close>

definition renderRawResponse :: "json \<Rightarrow> page \<Rightarrow> outcome" where
  "renderRawResponse data p =
     (case rawSection p of
        None \<Rightarrow> Returned p
      | Some r \<Rightarrow>
          (case pre r of
             None \<Rightarrow> Returned p
           | Some t \<Rightarrow>
               (case get data (js ''raw_response'') of
                  Inl e \<Rightarrow> Threw e p
                | Inr v \<Rightarrow>
                    (let payload = or_else v data
                     in Returned
                          (p\<lparr>rawSection :=
                               Some (r\<lparr>pre := Some (JSON_stringify payload 2),
                                       raw_hidden := False\<rparr>)\<rparr>)))))"

subsection \<open>The whole result\<close>

definition renderResult :: "json \<Rightarrow> page \<Rightarrow> outcome" where
  "renderResult data p =
     (case resultsPanel p of
        None \<Rightarrow> Returned p
      | Some h \<Rightarrow>
          and_then (showError (JStr []) (clearSuccess (p\<lparr>resultsPanel := Some False\<rparr>))) (\<lambda>p.
          and_then (renderSummary data p) (\<lambda>p.
          and_then (case get data (js ''events'') of
                      Inl e \<Rightarrow> Threw e p
                    | Inr ev \<Rightarrow> renderTimeline (Some (or_else ev (JArr []))) p) (\<lambda>p.
          and_then (renderRawResponse data p) (\<lambda>p.
          Returned (showSuccess SUCCESS_MESSAGE p))))))"

section \<open>Hydration\<close>

text \<open>
  \<open>readJSONScript\<close> gets the text of the script element, \<open>None\<close> when there is no
  such element, and the parser \<open>JSON.parse\<close> as a parameter.  The warning written to
  the console on a parse failure is not part of the page and is left out.
\<close>

definition readJSONScript :: "(jsstring \<Rightarrow> thrown + json) \<Rightarrow> jsstring option \<Rightarrow> json" where
  "readJSONScript parse script =
     (case script of
        None \<Rightarrow> JNull
      | Some content \<Rightarrow>
          (let t = trim content
           in if t = [] then JNull
              else (case parse t of Inl e \<Rightarrow> JNull | Inr v \<Rightarrow> v)))"

definition hydrateInitialState :: "(jsstring \<Rightarrow> thrown + json) \<Rightarrow> page \<Rightarrow> outcome" where
  "hydrateInitialState parse p =
     (let initialResult = readJSONScript parse (initial_tracking p);
          initialError = readJSONScript parse (initial_error p)
      in and_then (if truthy initialResult
                   then and_then (renderResult initialResult p) (\<lambda>p. Returned (clearSuccess p))
                   else Returned p) (\<lambda>p.
         if truthy initialError then showError initialError p else Returned p))"

section \<open>Request lifecycle\<close>

text \<open>The listener of the \<open>input\<close> event, registered when the barcode field exists.\<close>

definition on_input :: "page \<Rightarrow> outcome" where
  "on_input p =
     (case barcodeInput p of
        None \<Rightarrow> Returned p
      | Some i \<Rightarrow>
          (let p1 = (if trim (input_value i) = [] then toggle_has_error False p else p)
           in showError (JStr []) (clearSuccess p1)))"

text \<open>
  The request handed to \<open>fetch\<close>, and what comes back: \<open>fetch\<close> rejects, or yields a
  response with a status whose \<open>json()\<close> rejects or yields the parsed body.
\<close>

record request =
  url :: string
  http_method :: string
  content_type :: string
  accept :: string
  body :: jsstring

record response =
  status :: nat
  json_body :: "thrown + json"

definition ok :: "response \<Rightarrow> bool" where
  "ok r \<longleftrightarrow> 200 \<le> status r \<and> status r \<le> 299"

text \<open>
  The submit handler runs up to its first \<open>await\<close>, and resumes when the network
  answers.  \<open>submit_begin\<close> is the first part: the listener is registered only when the
  form exists and \<open>window.fetch\<close> is a function; on the validation path the handler
  is over; otherwise a request is under way.
\<close>

datatype submit_step =
    is_NotRegistered: NotRegistered
  | is_Completed: Completed (outcome_of: outcome)
  | is_Awaiting: Awaiting (sent: request) (pending: page)

definition submit_begin :: "page \<Rightarrow> submit_step" where
  "submit_begin p =
     (if form p = None \<or> \<not> hasFetch p then NotRegistered
      else
        (let p1 = clearSuccess p;
             barcode = (case barcodeInput p1 of
                          None \<Rightarrow> None
                        | Some i \<Rightarrow> Some (trim (input_value i)))
         in case barcode of
              None \<Rightarrow> Completed (showError (JStr VALIDATION_MESSAGE) p1)
            | Some b \<Rightarrow>
                (if b = [] then Completed (showError (JStr VALIDATION_MESSAGE) p1)
                 else (case showError (JStr []) (toggleLoading True p1) of
                         Threw e p2 \<Rightarrow> Completed (Threw e p2)
                       | Returned p2 \<Rightarrow>
                           Awaiting
                             \<lparr>url = ''/api/track'', http_method = ''POST'',
                              content_type = ''application/json'',
                              accept = ''application/json'',
                              body = JSON_stringify (JObj [(js ''barcode'', JStr b)]) 0\<rparr>
                             p2))))"

text \<open>\<open>payload?.error\<close>\<close>

definition optional_error :: "json \<Rightarrow> json option" where
  "optional_error payload =
     (if payload = JNull then None
      else (case get payload (js ''error'') of Inl e \<Rightarrow> None | Inr v \<Rightarrow> v))"

text \<open>The \<open>try\<close> block, from the point where \<open>fetch\<close> has settled.\<close>

definition try_block :: "thrown + response \<Rightarrow> page \<Rightarrow> outcome" where
  "try_block fetched p =
     (case fetched of
        Inl e \<Rightarrow> Threw e p
      | Inr r \<Rightarrow>
          (case json_body r of
             Inl e \<Rightarrow> Threw e p
           | Inr payload \<Rightarrow>
               (if \<not> ok r
                then (case toString (or_else (optional_error payload) (JStr FALLBACK_MESSAGE)) of
                        Inl e \<Rightarrow> Threw e p
                      | Inr m \<Rightarrow> Threw (Error m) p)
                else renderResult payload p)))"

text \<open>The rest of the handler: \<open>try\<close>, \<open>catch\<close> and \<open>finally\<close>.\<close>

definition submit_resume :: "thrown + response \<Rightarrow> page \<Rightarrow> outcome" where
  "submit_resume fetched p =
     (case try_block fetched p of
        Returned p1 \<Rightarrow> Returned (toggleLoading False p1)
      | Threw error p1 \<Rightarrow>
          (let msg = (if instanceofError error then message error else UNKNOWN_ERROR_MESSAGE)
           in case showError (JStr msg) p1 of
                Returned p2 \<Rightarrow> Returned (toggleLoading False p2)
              | Threw e p2 \<Rightarrow> Threw e (toggleLoading False p2)))"

text \<open>
  One submission with nothing happening in between: \<open>network\<close> answers the request.
\<close>

definition submit :: "(request \<Rightarrow> thrown + response) \<Rightarrow> page \<Rightarrow> submit_step" where
  "submit network p =
     (case submit_begin p of
        Awaiting req p1 \<Rightarrow> Completed (submit_resume (network req) p1)
      | step \<Rightarrow> step)"

section \<open>The data model of the specification\<close>

text \<open>
  The specification types the payload: a TrackingResult is an object whose fields
  \<open>barcode\<close>, \<open>current_status\<close>, \<open>sender\<close> and \<open>receiver\<close> are strings when present,
  whose \<open>events\<close>, when present, is a sequence of TimelineEvents, and whose
  \<open>raw_response\<close> is any value; a TimelineEvent is an object whose fields \<open>date\<close>,
  \<open>time\<close>, \<open>description\<close> and \<open>location\<close> are strings when present.  The code
  itself checks none of this.
\<close>

definition optional_string :: "json option \<Rightarrow> bool" where
  "optional_string v = (case v of None \<Rightarrow> True | Some (JStr s) \<Rightarrow> True | Some _ \<Rightarrow> False)"

fun is_TimelineEvent :: "json \<Rightarrow> bool" where
  "is_TimelineEvent (JObj kvs) =
     (optional_string (map_of kvs (js ''date'')) \<and> optional_string (map_of kvs (js ''time''))
      \<and> optional_string (map_of kvs (js ''description''))
      \<and> optional_string (map_of kvs (js ''location'')))"
| "is_TimelineEvent _ = False"

fun is_TrackingResult :: "json \<Rightarrow> bool" where
  "is_TrackingResult (JObj kvs) =
     (optional_string (map_of kvs (js ''barcode''))
      \<and> optional_string (map_of kvs (js ''current_status''))
      \<and> optional_string (map_of kvs (js ''sender''))
      \<and> optional_string (map_of kvs (js ''receiver''))
      \<and> (case map_of kvs (js ''events'') of
            None \<Rightarrow> True
          | Some (JArr es) \<Rightarrow> list_all is_TimelineEvent es
          | Some _ \<Rightarrow> False))"
| "is_TrackingResult _ = False"

text \<open>The string held by a field; empty when the field is absent.\<close>

definition field_string :: "json \<Rightarrow> jsstring \<Rightarrow> jsstring" where
  "field_string v key = (case get v key of Inr (Some (JStr s)) \<Rightarrow> s | _ \<Rightarrow> [])"

subsection \<open>The summary as the specification describes it\<close>

text \<open>
  The four fields in their fixed order, each with its label; those of them that are
  non-empty in a result; and the entry rendered for one of them.
\<close>

definition summary_keys :: "(jsstring \<times> jsstring) list" where
  "summary_keys =
     [(js ''barcode'', LABEL_BARCODE), (js ''current_status'', LABEL_CURRENT_STATUS),
      (js ''sender'', LABEL_SENDER), (js ''receiver'', LABEL_RECEIVER)]"

definition nonempty_fields :: "json \<Rightarrow> (jsstring \<times> jsstring) list" where
  "nonempty_fields data = filter (\<lambda>(key, label). field_string data key \<noteq> []) summary_keys"

definition summary_entry :: "nat \<Rightarrow> jsstring \<Rightarrow> jsstring \<Rightarrow> node" where
  "summary_entry i label s =
     Element ''div'' ''summary-item reveal'' (Some (i * 8))
       [Element ''span'' ''summary-label'' None [Text label],
        Element ''span'' ''summary-value'' None [Text s]]"

subsection \<open>The timeline as the specification describes it\<close>

text \<open>The text shown for a field of an event: the field, or its placeholder.\<close>

definition event_field :: "json \<Rightarrow> jsstring \<Rightarrow> jsstring \<Rightarrow> jsstring" where
  "event_field ev key fallback =
     (if field_string ev key = [] then fallback else field_string ev key)"

definition timeline_entry :: "nat \<Rightarrow> jsstring \<Rightarrow> jsstring \<Rightarrow> jsstring \<Rightarrow> jsstring \<Rightarrow> node" where
  "timeline_entry i d t ds l =
     Element ''li'' ''timeline-item reveal'' (Some (i * 6))
       [Element ''div'' ''timeline-meta'' None
          [Element ''span'' ''timeline-date'' None [Text d],
           Element ''span'' ''timeline-time'' None [Text t]],
        Element ''div'' ''timeline-content'' None
          [Element ''h3'' [] None [Text ds],
           Element ''p'' ''muted'' None [Text l]]]"

definition timeline_view :: "json list \<Rightarrow> node list" where
  "timeline_view evs =
     map (\<lambda>(i, ev). timeline_entry i (event_field ev (js ''date'') (js ''-''))
                        (event_field ev (js ''time'') (js ''-''))
                        (event_field ev (js ''description'') UNKNOWN_STATUS)
                        (event_field ev (js ''location'') UNKNOWN_LOCATION))
       (enumerate 0 evs)"

subsection \<open>Arguments computed inside the renderers\<close>

text \<open>The value the raw view serializes: \<open>data.raw_response || data\<close>.\<close>

definition raw_payload :: "json \<Rightarrow> json" where
  "raw_payload data =
     (case get data (js ''raw_response'') of
        Inr (Some v) \<Rightarrow> (if truthy v then v else data)
      | _ \<Rightarrow> data)"

text \<open>The argument \<open>data.events || []\<close> of the call in \<open>renderResult\<close>.\<close>

definition events_argument :: "json \<Rightarrow> json" where
  "events_argument data =
     (case get data (js ''events'') of Inr ev \<Rightarrow> or_else ev (JArr []) | Inl e \<Rightarrow> JArr [])"

section \<open>Example pages and payloads\<close>

text \<open>The user replaces the content of the barcode field, which fires \<open>input\<close>.\<close>

definition set_input_value :: "jsstring \<Rightarrow> page \<Rightarrow> page" where
  "set_input_value v p =
     (case form p of
        None \<Rightarrow> p
      | Some f \<Rightarrow>
          (case barcode f of
             None \<Rightarrow> p
           | Some i \<Rightarrow> p\<lparr>form := Some (f\<lparr>barcode := Some (i\<lparr>input_value := v\<rparr>)\<rparr>)\<rparr>))"

definition user_types :: "jsstring \<Rightarrow> page \<Rightarrow> outcome" where
  "user_types v p = on_input (set_input_value v p)"

text \<open>
  A page with every element, idle, the code \<open>X1\<close> typed into the field and no
  embedded payload.
\<close>

definition example_page :: page where
  "example_page =
     \<lparr>hasFetch = True,
      form = Some \<lparr>barcode = Some \<lparr>input_value = js ''X1'', has_error = False\<rparr>\<rparr>,
      resultsPanel = Some True,
      summaryContainer = Some [],
      timelineContainer = Some [],
      rawSection = Some \<lparr>raw_hidden = True, pre = Some []\<rparr>,
      errorBox = Some \<lparr>textContent = [], hidden = True\<rparr>,
      successBox = Some \<lparr>textContent = [], hidden = True\<rparr>,
      loadingOverlay = Some True,
      initial_tracking = None,
      initial_error = None\<rparr>"

text \<open>A page with none of the elements, and the example page without its results panel.\<close>

definition bare_page :: page where
  "bare_page =
     \<lparr>hasFetch = True, form = None, resultsPanel = None, summaryContainer = None,
      timelineContainer = None, rawSection = None, errorBox = None, successBox = None,
      loadingOverlay = None, initial_tracking = None, initial_error = None\<rparr>"

definition panelless_page :: page where
  "panelless_page = example_page\<lparr>resultsPanel := None\<rparr>"

text \<open>
  The page while the request for \<open>X1\<close> is under way, and the same page after the
  user has then emptied the field.
\<close>

definition requested_page :: page where
  "requested_page = pending (submit_begin example_page)"

definition revisited_page :: page where
  "revisited_page = page_of (user_types [] requested_page)"

text \<open>The same page with a field of blanks.\<close>

definition blank_page :: page where
  "blank_page = page_of (user_types (js ''   '') example_page)"

text \<open>
  A result with a barcode and a status, an empty sender, no receiver, and two
  events, the second without any field.
\<close>

definition example_result :: json where
  "example_result =
     JObj [(js ''barcode'', JStr (js ''X1'')),
           (js ''current_status'', JStr (js ''Delivered'')),
           (js ''sender'', JStr []),
           (js ''events'',
            JArr [JObj [(js ''date'', JStr (js ''2024-01-01'')),
                        (js ''description'', JStr (js ''Accepted''))],
                  JObj []])]"

text \<open>A result whose \<open>raw_response\<close> is the JSON value \<open>false\<close>.\<close>

definition false_raw_result :: json where
  "false_raw_result = JObj [(js ''barcode'', JStr (js ''X1'')), (js ''raw_response'', JBool False)]"

text \<open>A result that carries the original payload, the number \<open>1e21\<close> under \<open>code\<close>.\<close>

definition raw_result :: json where
  "raw_result =
     JObj [(js ''barcode'', JStr (js ''X1'')), (js ''raw_response'', JObj [(js ''code'', JNum (NFinite (js ''1e+21'')))])]"

text \<open>Answers of the network.\<close>

definition ok_response :: response where
  "ok_response = \<lparr>status = 200, json_body = Inr example_result\<rparr>"


definition not_found_response :: response where
  "not_found_response =
     \<lparr>status = 404, json_body = Inr (JObj [(js ''error'', JStr (js ''not found''))])\<rparr>"

definition empty_error_response :: response where
  "empty_error_response = \<lparr>status = 404, json_body = Inr (JObj [(js ''error'', JStr [])])\<rparr>"

definition bad_gateway_response :: response where
  "bad_gateway_response =
     \<lparr>status = 502, json_body = Inl (SyntaxError (js ''Unexpected token < in JSON at position 0''))\<rparr>"

text \<open>
  A page as the server may send it, with both scripts filled: the result is the
  compact serialization of \<open>example_result\<close>, the error is the JSON string
  \<open>bad code\<close>.  On a second page the error is the empty JSON string, two quotes.
  \<open>example_parse\<close> is \<open>JSON.parse\<close> on these three texts.
\<close>

definition example_error_text :: jsstring where
  "example_error_text = [0x22] @ js ''bad code'' @ [0x22]"

definition empty_error_text :: jsstring where
  "empty_error_text = [0x22, 0x22]"

definition example_parse :: "jsstring \<Rightarrow> thrown + json" where
  "example_parse t =
     (if t = JSON_stringify example_result 0 then Inr example_result
      else if t = example_error_text then Inr (JStr (js ''bad code''))
      else if t = empty_error_text then Inr (JStr [])
      else Inl (SyntaxError (js ''Unexpected token'')))"

definition hydrated_page :: page where
  "hydrated_page =
     example_page\<lparr>initial_tracking := Some (JSON_stringify example_result 0),
                  initial_error := Some example_error_text\<rparr>"

definition empty_error_page :: page where
  "empty_error_page =
     example_page\<lparr>initial_tracking := Some (JSON_stringify example_result 0),
                  initial_error := Some empty_error_text\<rparr>"

section \<open>Auxiliary facts\<close>

lemma length_number_zero [simp]: "(length_number n = NZero) = (n = 0)"
  by (simp add: length_number_def)

lemma LABELS_nonempty: "LABEL_BARCODE \<noteq> []" "LABEL_CURRENT_STATUS \<noteq> []" "LABEL_SENDER \<noteq> []" "LABEL_RECEIVER \<noteq> []"
  by (simp_all add: LABEL_BARCODE_def LABEL_CURRENT_STATUS_def LABEL_SENDER_def LABEL_RECEIVER_def)

lemma summary_item_JStr:
  "s \<noteq> [] \<Longrightarrow> l \<noteq> [] \<Longrightarrow> summary_item i (l, JStr s) = Inr (summary_entry i l s)"
  by (simp add: summary_item_def summary_entry_def createElement_def)

lemma filter_items_strings:
  "\<forall>(key, label) \<in> set ks. optional_string (m key) \<Longrightarrow>
   filter_items (map (\<lambda>(key, label). (label, m key)) ks) =
     map (\<lambda>(key, label). (label, JStr (case m key of Some (JStr s) \<Rightarrow> s | _ \<Rightarrow> [])))
       (filter (\<lambda>(key, label). case m key of Some (JStr s) \<Rightarrow> s \<noteq> [] | _ \<Rightarrow> False) ks)"
  by (induction ks) (auto simp: optional_string_def split: option.splits json.splits)

lemma forEach_nodes_map:
  "(\<And>j x. x \<in> set xs \<Longrightarrow> f j x = Inr (g j x)) \<Longrightarrow>
   forEach_nodes f i xs = Inr (map (\<lambda>(j, x). g j x) (enumerate i xs))"
  by (induction xs arbitrary: i) auto

lemma enumerate_map_items:
  "enumerate i (map f xs) = map (\<lambda>(j, x). (j, f x)) (enumerate i xs)"
  by (induction xs arbitrary: i) auto

lemma summary_keys_labels: "(key, label) \<in> set summary_keys \<Longrightarrow> label \<noteq> []"
  using LABELS_nonempty by (auto simp: summary_keys_def)

lemma summary_fields_JObj:
  "summary_fields (JObj kvs) = Inr (map (\<lambda>(key, label). (label, map_of kvs key)) summary_keys)"
  by (simp add: summary_fields_def summary_keys_def)

lemma TrackingResult_summary_keys:
  "is_TrackingResult (JObj kvs) \<Longrightarrow> \<forall>(key, label) \<in> set summary_keys. optional_string (map_of kvs key)"
  by (simp add: summary_keys_def)

lemma summary_items_TrackingResult:
  assumes "is_TrackingResult (JObj kvs)"
  shows "filter_items (map (\<lambda>(key, label). (label, map_of kvs key)) summary_keys) =
           map (\<lambda>(key, label). (label, JStr (field_string (JObj kvs) key)))
             (nonempty_fields (JObj kvs))"
proof -
  have a: "(case map_of kvs key of Some (JStr s) \<Rightarrow> s | _ \<Rightarrow> []) = field_string (JObj kvs) key" for key
    by (simp add: field_string_def split: option.splits json.splits)
  have b: "(case map_of kvs key of Some (JStr s) \<Rightarrow> s \<noteq> [] | _ \<Rightarrow> False) = (field_string (JObj kvs) key \<noteq> [])" for key
    by (simp add: field_string_def split: option.splits json.splits)
  show ?thesis
    using filter_items_strings [OF TrackingResult_summary_keys [OF assms]]
    by (simp add: a b nonempty_fields_def)
qed

lemma renderSummary_TrackingResult:
  assumes "is_TrackingResult data" and "summaryContainer p = Some old"
  shows "renderSummary data p =
           Returned (p\<lparr>summaryContainer :=
             Some (if nonempty_fields data = [] then [summary_placeholder]
                   else map (\<lambda>(i, key, label). summary_entry i label (field_string data key))
                          (enumerate 0 (nonempty_fields data)))\<rparr>)"
proof -
  from assms(1) obtain kvs where data: "data = JObj kvs"
    by (cases data) simp_all
  let ?present = "nonempty_fields data"
  let ?items = "map (\<lambda>(key, label). (label, JStr (field_string data key))) ?present"
  have fields: "summary_fields data = Inr (map (\<lambda>(key, label). (label, map_of kvs key)) summary_keys)"
    by (simp add: data summary_fields_JObj)
  have items: "filter_items (map (\<lambda>(key, label). (label, map_of kvs key)) summary_keys) = ?items"
    using summary_items_TrackingResult assms(1) by (simp add: data)
  have each: "summary_item j x = Inr (summary_entry j (fst x) (case snd x of JStr s \<Rightarrow> s | _ \<Rightarrow> []))"
    if "x \<in> set ?items" for j x
  proof -
    from that obtain key label where kl: "(key, label) \<in> set ?present"
      and x: "x = (label, JStr (field_string data key))"
      by auto
    from kl have "field_string data key \<noteq> []" and "label \<noteq> []"
      by (auto simp: nonempty_fields_def dest: summary_keys_labels)
    then show ?thesis
      by (simp add: x summary_item_JStr)
  qed
  have loop: "forEach_nodes summary_item 0 ?items =
                Inr (map (\<lambda>(i, key, label). summary_entry i label (field_string data key))
                       (enumerate 0 ?present))"
    using forEach_nodes_map [of ?items summary_item
        "\<lambda>j x. summary_entry j (fst x) (case snd x of JStr s \<Rightarrow> s | _ \<Rightarrow> [])" 0] each
    by (simp add: enumerate_map_items split_def o_def)
  show ?thesis
    by (simp add: renderSummary_def assms(2) fields items loop Let_def)
qed

lemma foldl_appendChild:
  "foldl appendChild (Element tag cls delay cs) ns = Element tag cls delay (cs @ ns)"
  by (induction ns arbitrary: cs) auto

lemma event_text_TimelineEvent:
  assumes "optional_string (map_of kvs key)"
  shows "event_text (JObj kvs) key fallback = Inr (event_field (JObj kvs) key fallback)"
  using assms
  by (auto simp: event_text_def event_field_def field_string_def optional_string_def
      split: option.splits json.splits)

lemma event_field_nonempty: "fallback \<noteq> [] \<Longrightarrow> event_field ev key fallback \<noteq> []"
  by (simp add: event_field_def)

lemma UNKNOWN_nonempty: "UNKNOWN_STATUS \<noteq> []" "UNKNOWN_LOCATION \<noteq> []" "js ''-'' \<noteq> []"
  by (simp_all add: UNKNOWN_STATUS_def UNKNOWN_LOCATION_def js_def)

lemma timeline_item_TimelineEvent:
  assumes "is_TimelineEvent ev"
  shows "timeline_item i ev =
           Inr (timeline_entry i (event_field ev (js ''date'') (js ''-''))
                  (event_field ev (js ''time'') (js ''-''))
                  (event_field ev (js ''description'') UNKNOWN_STATUS)
                  (event_field ev (js ''location'') UNKNOWN_LOCATION))"
proof -
  from assms obtain kvs where ev: "ev = JObj kvs"
    by (cases ev) simp_all
  from assms have
    "event_text ev (js ''date'') (js ''-'') = Inr (event_field ev (js ''date'') (js ''-''))"
    "event_text ev (js ''time'') (js ''-'') = Inr (event_field ev (js ''time'') (js ''-''))"
    "event_text ev (js ''description'') UNKNOWN_STATUS =
       Inr (event_field ev (js ''description'') UNKNOWN_STATUS)"
    "event_text ev (js ''location'') UNKNOWN_LOCATION =
       Inr (event_field ev (js ''location'') UNKNOWN_LOCATION)"
    by (simp_all add: ev event_text_TimelineEvent)
  then show ?thesis
    by (simp add: timeline_item_def timeline_entry_def createElement_def
        event_field_nonempty UNKNOWN_nonempty)
qed

lemma timeline_loop:
  assumes "list_all is_TimelineEvent evs"
  shows "forEach_nodes timeline_item 0 evs = Inr (timeline_view evs)"
  unfolding timeline_view_def
  using assms by (intro forEach_nodes_map timeline_item_TimelineEvent) (simp add: list_all_iff)

lemma and_then_returned: "returned out \<Longrightarrow> and_then out f = f (page_of out)"
  by (cases out) simp_all

lemma barcodeInput_update [simp]:
  "barcodeInput (p\<lparr>resultsPanel := a\<rparr>) = barcodeInput p"
  "barcodeInput (p\<lparr>summaryContainer := b\<rparr>) = barcodeInput p"
  "barcodeInput (p\<lparr>timelineContainer := c\<rparr>) = barcodeInput p"
  "barcodeInput (p\<lparr>rawSection := d\<rparr>) = barcodeInput p"
  "barcodeInput (p\<lparr>errorBox := e\<rparr>) = barcodeInput p"
  "barcodeInput (p\<lparr>successBox := f\<rparr>) = barcodeInput p"
  "barcodeInput (p\<lparr>loadingOverlay := g\<rparr>) = barcodeInput p"
  by (simp_all add: barcodeInput_def)

lemma toggleLoading_frame [simp]:
  "hasFetch (toggleLoading s p) = hasFetch p"
  "form (toggleLoading s p) = form p"
  "barcodeInput (toggleLoading s p) = barcodeInput p"
  "resultsPanel (toggleLoading s p) = resultsPanel p"
  "summaryContainer (toggleLoading s p) = summaryContainer p"
  "timelineContainer (toggleLoading s p) = timelineContainer p"
  "rawSection (toggleLoading s p) = rawSection p"
  "errorBox (toggleLoading s p) = errorBox p"
  "successBox (toggleLoading s p) = successBox p"
  "initial_tracking (toggleLoading s p) = initial_tracking p"
  "initial_error (toggleLoading s p) = initial_error p"
  by (simp_all add: toggleLoading_def barcodeInput_def split: option.splits)

lemma toggleLoading_loadingOverlay [simp]:
  "loadingOverlay (toggleLoading s p) = map_option (\<lambda>h. \<not> s) (loadingOverlay p)"
  by (simp add: toggleLoading_def split: option.splits)

lemma clearSuccess_frame [simp]:
  "hasFetch (clearSuccess p) = hasFetch p"
  "form (clearSuccess p) = form p"
  "barcodeInput (clearSuccess p) = barcodeInput p"
  "resultsPanel (clearSuccess p) = resultsPanel p"
  "summaryContainer (clearSuccess p) = summaryContainer p"
  "timelineContainer (clearSuccess p) = timelineContainer p"
  "rawSection (clearSuccess p) = rawSection p"
  "errorBox (clearSuccess p) = errorBox p"
  "loadingOverlay (clearSuccess p) = loadingOverlay p"
  "initial_tracking (clearSuccess p) = initial_tracking p"
  "initial_error (clearSuccess p) = initial_error p"
  by (simp_all add: clearSuccess_def barcodeInput_def split: option.splits)

lemma clearSuccess_successBox [simp]:
  "successBox (clearSuccess p) =
     map_option (\<lambda>b. \<lparr>textContent = [], hidden = True\<rparr>) (successBox p)"
  by (simp add: clearSuccess_def split: option.splits)

lemma showSuccess_frame [simp]:
  "hasFetch (showSuccess m p) = hasFetch p"
  "form (showSuccess m p) = form p"
  "barcodeInput (showSuccess m p) = barcodeInput p"
  "resultsPanel (showSuccess m p) = resultsPanel p"
  "summaryContainer (showSuccess m p) = summaryContainer p"
  "timelineContainer (showSuccess m p) = timelineContainer p"
  "rawSection (showSuccess m p) = rawSection p"
  "errorBox (showSuccess m p) = errorBox p"
  "loadingOverlay (showSuccess m p) = loadingOverlay p"
  "initial_tracking (showSuccess m p) = initial_tracking p"
  "initial_error (showSuccess m p) = initial_error p"
  by (simp_all add: showSuccess_def barcodeInput_def split: option.splits)

lemma showSuccess_successBox [simp]:
  "successBox (showSuccess m p) =
     map_option (\<lambda>b. \<lparr>textContent = m, hidden = (m = [])\<rparr>) (successBox p)"
  by (simp add: showSuccess_def split: option.splits)

lemma showError_frame [simp]:
  "hasFetch (page_of (showError m p)) = hasFetch p"
  "summaryContainer (page_of (showError m p)) = summaryContainer p"
  "timelineContainer (page_of (showError m p)) = timelineContainer p"
  "rawSection (page_of (showError m p)) = rawSection p"
  "successBox (page_of (showError m p)) = successBox p"
  "loadingOverlay (page_of (showError m p)) = loadingOverlay p"
  "initial_tracking (page_of (showError m p)) = initial_tracking p"
  "initial_error (page_of (showError m p)) = initial_error p"
  by (simp_all add: showError_def toggle_has_error_def barcodeInput_def Let_def
      split: option.splits sum.splits)

lemma showError_present [simp]:
  "(form (page_of (showError m p)) = None) = (form p = None)"
  "(barcodeInput (page_of (showError m p)) = None) = (barcodeInput p = None)"
  "(resultsPanel (page_of (showError m p)) = None) = (resultsPanel p = None)"
  "(errorBox (page_of (showError m p)) = None) = (errorBox p = None)"
  by (auto simp: showError_def toggle_has_error_def barcodeInput_def Let_def
      split: option.splits sum.splits)

lemma showError_JStr_returned [simp]: "returned (showError (JStr s) p)"
  by (simp add: showError_def Let_def split: option.splits)

lemma showError_JStr_errorBox [simp]:
  "errorBox (page_of (showError (JStr s) p)) =
     map_option (\<lambda>b. \<lparr>textContent = s, hidden = (s = [])\<rparr>) (errorBox p)"
  by (simp add: showError_def toggle_has_error_def barcodeInput_def Let_def
      split: option.splits)

lemma showError_JStr_barcodeInput [simp]:
  "barcodeInput (page_of (showError (JStr s) p)) =
     (if errorBox p = None then barcodeInput p
      else map_option (\<lambda>i. i\<lparr>has_error := (s \<noteq> [])\<rparr>) (barcodeInput p))"
  by (simp add: showError_def toggle_has_error_def barcodeInput_def Let_def
      split: option.splits)

lemma showError_JStr_resultsPanel [simp]:
  "resultsPanel (page_of (showError (JStr s) p)) =
     (if errorBox p \<noteq> None \<and> s \<noteq> [] then map_option (\<lambda>h. False) (resultsPanel p)
      else resultsPanel p)"
  by (auto simp: showError_def toggle_has_error_def barcodeInput_def Let_def
      split: option.splits)

lemma renderSummary_frame [simp]:
  "hasFetch (page_of (renderSummary data p)) = hasFetch p"
  "form (page_of (renderSummary data p)) = form p"
  "barcodeInput (page_of (renderSummary data p)) = barcodeInput p"
  "resultsPanel (page_of (renderSummary data p)) = resultsPanel p"
  "timelineContainer (page_of (renderSummary data p)) = timelineContainer p"
  "rawSection (page_of (renderSummary data p)) = rawSection p"
  "errorBox (page_of (renderSummary data p)) = errorBox p"
  "successBox (page_of (renderSummary data p)) = successBox p"
  "loadingOverlay (page_of (renderSummary data p)) = loadingOverlay p"
  "initial_tracking (page_of (renderSummary data p)) = initial_tracking p"
  "initial_error (page_of (renderSummary data p)) = initial_error p"
  by (simp_all add: renderSummary_def barcodeInput_def Let_def split: option.splits sum.splits)

lemma renderTimeline_frame [simp]:
  "hasFetch (page_of (renderTimeline ev p)) = hasFetch p"
  "form (page_of (renderTimeline ev p)) = form p"
  "barcodeInput (page_of (renderTimeline ev p)) = barcodeInput p"
  "resultsPanel (page_of (renderTimeline ev p)) = resultsPanel p"
  "summaryContainer (page_of (renderTimeline ev p)) = summaryContainer p"
  "rawSection (page_of (renderTimeline ev p)) = rawSection p"
  "errorBox (page_of (renderTimeline ev p)) = errorBox p"
  "successBox (page_of (renderTimeline ev p)) = successBox p"
  "loadingOverlay (page_of (renderTimeline ev p)) = loadingOverlay p"
  "initial_tracking (page_of (renderTimeline ev p)) = initial_tracking p"
  "initial_error (page_of (renderTimeline ev p)) = initial_error p"
  by (simp_all add: renderTimeline_def renderEmpty_def barcodeInput_def Let_def
      split: option.splits sum.splits json.splits)

lemma renderRawResponse_frame [simp]:
  "hasFetch (page_of (renderRawResponse data p)) = hasFetch p"
  "form (page_of (renderRawResponse data p)) = form p"
  "barcodeInput (page_of (renderRawResponse data p)) = barcodeInput p"
  "resultsPanel (page_of (renderRawResponse data p)) = resultsPanel p"
  "summaryContainer (page_of (renderRawResponse data p)) = summaryContainer p"
  "timelineContainer (page_of (renderRawResponse data p)) = timelineContainer p"
  "errorBox (page_of (renderRawResponse data p)) = errorBox p"
  "successBox (page_of (renderRawResponse data p)) = successBox p"
  "loadingOverlay (page_of (renderRawResponse data p)) = loadingOverlay p"
  "initial_tracking (page_of (renderRawResponse data p)) = initial_tracking p"
  "initial_error (page_of (renderRawResponse data p)) = initial_error p"
  by (simp_all add: renderRawResponse_def barcodeInput_def Let_def split: option.splits sum.splits)

lemma renderRawResponse_shown:
  assumes "data \<noteq> JNull" and "rawSection p = Some r" and "pre r = Some t"
  shows "renderRawResponse data p =
           Returned (p\<lparr>rawSection :=
                        Some \<lparr>raw_hidden = False, pre = Some (JSON_stringify (raw_payload data) 2)\<rparr>\<rparr>)"
  using assms
  by (cases data) (auto simp: renderRawResponse_def raw_payload_def split: option.splits)

lemma renderRawResponse_returned:
  "data \<noteq> JNull \<Longrightarrow> returned (renderRawResponse data p)"
  by (cases data) (auto simp: renderRawResponse_def split: option.splits)

lemma renderSummary_returned:
  "is_TrackingResult data \<Longrightarrow> returned (renderSummary data p)"
  using renderSummary_TrackingResult [of data p]
  by (cases "summaryContainer p") (auto simp: renderSummary_def)

lemma renderTimeline_returned:
  assumes "list_all is_TimelineEvent evs"
  shows "returned (renderTimeline (Some (JArr evs)) p)"
proof (cases "timelineContainer p")
  case None
  then show ?thesis by (simp add: renderTimeline_def)
next
  case (Some old)
  then show ?thesis
    using assms by (cases "evs = []") (simp_all add: renderTimeline_def timeline_loop)
qed

lemma events_argument_TrackingResult:
  assumes "is_TrackingResult data"
  shows "\<exists>evs. events_argument data = JArr evs \<and> list_all is_TimelineEvent evs"
proof -
  from assms obtain kvs where data: "data = JObj kvs"
    by (cases data) simp_all
  show ?thesis
    using assms
    by (auto simp: data events_argument_def split: option.splits json.splits)
qed

lemma renderResult_TrackingResult:
  assumes "is_TrackingResult data" and "resultsPanel p = Some h"
  shows "renderResult data p =
           Returned (showSuccess SUCCESS_MESSAGE
             (page_of (renderRawResponse data
               (page_of (renderTimeline (Some (events_argument data))
                 (page_of (renderSummary data
                   (page_of (showError (JStr []) (clearSuccess (p\<lparr>resultsPanel := Some False\<rparr>)))))))))))"
proof -
  from assms(1) obtain kvs where data: "data = JObj kvs"
    by (cases data) simp_all
  have ev: "get data (js ''events'') = Inr (map_of kvs (js ''events''))"
    by (simp add: data)
  have arg: "or_else (map_of kvs (js ''events'')) (JArr []) = events_argument data"
    by (simp add: data events_argument_def)
  obtain evs where evs: "events_argument data = JArr evs" "list_all is_TimelineEvent evs"
    using events_argument_TrackingResult [OF assms(1)] by blast
  have nn: "data \<noteq> JNull"
    by (simp add: data)
  show ?thesis
    unfolding renderResult_def
    by (simp add: assms(2) ev arg and_then_returned renderSummary_returned [OF assms(1)]
        evs(1) renderTimeline_returned [OF evs(2)] renderRawResponse_returned [OF nn])
qed

lemma VALIDATION_MESSAGE_nonempty: "VALIDATION_MESSAGE \<noteq> []"
  by (simp add: VALIDATION_MESSAGE_def)

lemma submit_begin_validation:
  assumes "hasFetch p" and "barcodeInput p = Some i" and "trim (input_value i) = []"
  shows "submit_begin p = Completed (showError (JStr VALIDATION_MESSAGE) (clearSuccess p))"
  using assms by (auto simp: submit_begin_def barcodeInput_def split: option.splits)

lemma submit_begin_Completed:
  assumes "submit_begin p = Completed out"
  shows "out = showError (JStr VALIDATION_MESSAGE) (clearSuccess p)"
  using assms
  by (simp add: submit_begin_def Let_def outcome.case_eq_if split: if_splits option.splits)


lemma page_of_and_then:
  "page_of (and_then out f) = (if returned out then page_of (f (page_of out)) else page_of out)"
  by (cases out) simp_all

lemma submit_resume_returned: "returned (submit_resume fetched p)"
  by (simp add: submit_resume_def outcome.case_eq_if Let_def)

lemma renderResult_loadingOverlay [simp]:
  "loadingOverlay (page_of (renderResult data p)) = loadingOverlay p"
  by (simp add: renderResult_def page_of_and_then split: option.splits sum.splits)

lemma try_block_loadingOverlay [simp]:
  "loadingOverlay (page_of (try_block fetched p)) = loadingOverlay p"
  by (simp add: try_block_def split: sum.splits)

lemma submit_resume_loadingOverlay:
  "loadingOverlay (page_of (submit_resume fetched p)) = map_option (\<lambda>h. True) (loadingOverlay p)"
  by (simp add: submit_resume_def outcome.case_eq_if Let_def)

lemma SUCCESS_MESSAGE_nonempty: "SUCCESS_MESSAGE \<noteq> []"
  by (simp add: SUCCESS_MESSAGE_def)

lemma FALLBACK_MESSAGE_nonempty: "FALLBACK_MESSAGE \<noteq> []"
  by (simp add: FALLBACK_MESSAGE_def)

lemma renderSummary_depends:
  "summaryContainer p = summaryContainer p' \<Longrightarrow>
   summaryContainer (page_of (renderSummary data p)) =
     summaryContainer (page_of (renderSummary data p'))"
  by (simp add: renderSummary_def Let_def split: option.splits sum.splits)

lemma renderTimeline_depends:
  "timelineContainer p = timelineContainer p' \<Longrightarrow>
   timelineContainer (page_of (renderTimeline ev p)) =
     timelineContainer (page_of (renderTimeline ev p'))"
  by (simp add: renderTimeline_def renderEmpty_def Let_def
      split: option.splits sum.splits json.splits)

lemma renderRawResponse_depends:
  "rawSection p = rawSection p' \<Longrightarrow>
   rawSection (page_of (renderRawResponse data p)) =
     rawSection (page_of (renderRawResponse data p'))"
  by (simp add: renderRawResponse_def Let_def split: option.splits sum.splits)

lemma renderResult_returned:
  "is_TrackingResult data \<Longrightarrow> returned (renderResult data p)"
  by (cases "resultsPanel p") (simp_all add: renderResult_TrackingResult, simp add: renderResult_def)

lemma renderResult_views:
  assumes "is_TrackingResult data" and "resultsPanel p = Some h"
  shows "summaryContainer (page_of (renderResult data p)) =
           summaryContainer (page_of (renderSummary data p))"
    and "timelineContainer (page_of (renderResult data p)) =
           timelineContainer (page_of (renderTimeline (Some (events_argument data)) p))"
    and "rawSection (page_of (renderResult data p)) =
           rawSection (page_of (renderRawResponse data p))"
    and "errorBox (page_of (renderResult data p)) =
           map_option (\<lambda>b. \<lparr>textContent = [], hidden = True\<rparr>) (errorBox p)"
    and "successBox (page_of (renderResult data p)) =
           map_option (\<lambda>b. \<lparr>textContent = SUCCESS_MESSAGE, hidden = False\<rparr>) (successBox p)"
    and "resultsPanel (page_of (renderResult data p)) = Some False"
    and "barcodeInput (page_of (renderResult data p)) =
           (if errorBox p = None then barcodeInput p
            else map_option (\<lambda>i. i\<lparr>has_error := False\<rparr>) (barcodeInput p))"
proof -
  note rr = renderResult_TrackingResult [OF assms]
  show "summaryContainer (page_of (renderResult data p)) =
           summaryContainer (page_of (renderSummary data p))"
    by (simp add: rr) (rule renderSummary_depends, simp)
  show "timelineContainer (page_of (renderResult data p)) =
           timelineContainer (page_of (renderTimeline (Some (events_argument data)) p))"
    by (simp add: rr) (rule renderTimeline_depends, simp)
  show "rawSection (page_of (renderResult data p)) =
           rawSection (page_of (renderRawResponse data p))"
    by (simp add: rr) (rule renderRawResponse_depends, simp)
  show "errorBox (page_of (renderResult data p)) =
           map_option (\<lambda>b. \<lparr>textContent = [], hidden = True\<rparr>) (errorBox p)"
    by (simp add: rr)
  show "successBox (page_of (renderResult data p)) =
           map_option (\<lambda>b. \<lparr>textContent = SUCCESS_MESSAGE, hidden = False\<rparr>) (successBox p)"
    by (simp add: rr SUCCESS_MESSAGE_nonempty option.map_comp o_def)
  show "resultsPanel (page_of (renderResult data p)) = Some False"
    by (simp add: rr)
  show "barcodeInput (page_of (renderResult data p)) =
           (if errorBox p = None then barcodeInput p
            else map_option (\<lambda>i. i\<lparr>has_error := False\<rparr>) (barcodeInput p))"
    by (simp add: rr)
qed

lemma submit_resume_success:
  assumes "ok r" and "json_body r = Inr data" and "returned (renderResult data p)"
  shows "submit_resume (Inr r) p = Returned (toggleLoading False (page_of (renderResult data p)))"
  using assms by (simp add: submit_resume_def try_block_def outcome.case_eq_if)

lemma submit_resume_failure:
  assumes "try_block fetched p = Threw e p"
  shows "submit_resume fetched p =
           Returned (toggleLoading False (page_of (showError
             (JStr (if instanceofError e then message e else UNKNOWN_ERROR_MESSAGE)) p)))"
  using assms by (simp add: submit_resume_def outcome.case_eq_if Let_def)

lemma optional_error_cases:
  "optional_error payload = Some (JStr s) \<Longrightarrow> s \<noteq> [] \<Longrightarrow>
     toString (or_else (optional_error payload) (JStr FALLBACK_MESSAGE)) = Inr s"
  "\<not> truthy_opt (optional_error payload) \<Longrightarrow>
     toString (or_else (optional_error payload) (JStr FALLBACK_MESSAGE)) = Inr FALLBACK_MESSAGE"
  by (cases "optional_error payload"; simp)+

lemma showError_JStr_form [simp]:
  "form (page_of (showError (JStr s) p)) =
     (if errorBox p = None then form p
      else map_option (\<lambda>f. f\<lparr>barcode := map_option (\<lambda>i. i\<lparr>has_error := (s \<noteq> [])\<rparr>) (barcode f)\<rparr>)
             (form p))"
  by (simp add: showError_def toggle_has_error_def barcodeInput_def Let_def
      split: option.splits)

lemma renderResult_frame [simp]:
  "hasFetch (page_of (renderResult data p)) = hasFetch p"
  "initial_tracking (page_of (renderResult data p)) = initial_tracking p"
  "initial_error (page_of (renderResult data p)) = initial_error p"
  by (simp_all add: renderResult_def page_of_and_then split: option.splits sum.splits)

lemma renderResult_form:
  assumes "is_TrackingResult data" and "resultsPanel p = Some h"
  shows "form (page_of (renderResult data p)) =
     (if errorBox p = None then form p
      else map_option (\<lambda>f. f\<lparr>barcode := map_option (\<lambda>i. i\<lparr>has_error := False\<rparr>) (barcode f)\<rparr>)
             (form p))"
  by (simp add: renderResult_TrackingResult [OF assms])

lemma renderResult_no_panel: "resultsPanel p = None \<Longrightarrow> renderResult data p = Returned p"
  by (simp add: renderResult_def)

lemma is_TrackingResult_truthy: "is_TrackingResult data \<Longrightarrow> truthy data"
  by (cases data) simp_all

lemma hydrate_result:
  assumes "readJSONScript parse (initial_tracking p) = data" and "is_TrackingResult data"
  shows "hydrateInitialState parse p =
           (let q = clearSuccess (page_of (renderResult data p));
                initialError = readJSONScript parse (initial_error p)
            in if truthy initialError then showError initialError q else Returned q)"
  using assms
  by (simp add: hydrateInitialState_def Let_def and_then_returned renderResult_returned
      is_TrackingResult_truthy)

lemma hydrate_views:
  assumes "readJSONScript parse (initial_tracking p) = data" and "is_TrackingResult data"
  shows "summaryContainer (page_of (hydrateInitialState parse p)) =
           summaryContainer (page_of (renderResult data p))"
    and "timelineContainer (page_of (hydrateInitialState parse p)) =
           timelineContainer (page_of (renderResult data p))"
    and "rawSection (page_of (hydrateInitialState parse p)) =
           rawSection (page_of (renderResult data p))"
    and "successBox (page_of (hydrateInitialState parse p)) =
           map_option (\<lambda>b. \<lparr>textContent = [], hidden = True\<rparr>) (successBox p)"
  by (simp_all add: hydrate_result [OF assms] Let_def option.map_comp o_def,
      cases "resultsPanel p",
      simp_all add: renderResult_no_panel renderResult_views [OF assms(2)] option.map_comp o_def)

lemma example_result_fields:
  "nonempty_fields example_result =
     [(js ''barcode'', LABEL_BARCODE), (js ''current_status'', LABEL_CURRENT_STATUS)]"
  by (simp add: nonempty_fields_def summary_keys_def field_string_def example_result_def js_def)

lemma example_result_TrackingResult: "is_TrackingResult example_result"
  by (simp add: example_result_def optional_string_def js_def)

lemma trim_blanks: "trim (js ''   '') = []" "trim [] = []" "trim (js ''X1'') = js ''X1''"
  "js ''X1'' \<noteq> []"
  by (simp_all add: trim_def js_def isWhiteSpace_def)

lemma blank_page_eq:
  "blank_page = example_page\<lparr>form := Some \<lparr>barcode = Some \<lparr>input_value = js ''   '', has_error = False\<rparr>\<rparr>\<rparr>"
  by (simp add: blank_page_def user_types_def on_input_def set_input_value_def example_page_def
      barcodeInput_def toggle_has_error_def showError_def clearSuccess_def trim_blanks Let_def)

lemma requested_page_eq:
  "submit_begin example_page =
     Awaiting \<lparr>url = ''/api/track'', http_method = ''POST'', content_type = ''application/json'',
               accept = ''application/json'',
               body = JSON_stringify (JObj [(js ''barcode'', JStr (js ''X1''))]) 0\<rparr>
       (example_page\<lparr>loadingOverlay := Some False\<rparr>)"
  "requested_page = example_page\<lparr>loadingOverlay := Some False\<rparr>"
  by (simp_all add: requested_page_def submit_begin_def example_page_def
      barcodeInput_def toggle_has_error_def showError_def clearSuccess_def toggleLoading_def
      trim_blanks Let_def)

lemma revisited_page_eq:
  "revisited_page =
     example_page\<lparr>form := Some \<lparr>barcode = Some \<lparr>input_value = [], has_error = False\<rparr>\<rparr>,
                  loadingOverlay := Some False\<rparr>"
  by (simp add: revisited_page_def requested_page_eq user_types_def on_input_def
      set_input_value_def example_page_def
      barcodeInput_def toggle_has_error_def showError_def clearSuccess_def trim_blanks Let_def)

lemma try_block_server_error:
  assumes "\<not> ok r" and "json_body r = Inr payload"
    and "toString (or_else (optional_error payload) (JStr FALLBACK_MESSAGE)) = Inr m"
  shows "try_block (Inr r) p = Threw (Error m) p"
  using assms by (simp add: try_block_def)

lemma try_block_body_rejected:
  assumes "json_body r = Inl e"
  shows "try_block (Inr r) p = Threw e p"
  using assms by (simp add: try_block_def)

lemma submit_resume_shows_error:
  assumes "try_block fetched p = Threw e p" and "instanceofError e" and "message e = m"
    and "m \<noteq> []"
  shows "returned (submit_resume fetched p)"
    and "errorBox (page_of (submit_resume fetched p)) =
           map_option (\<lambda>b. \<lparr>textContent = m, hidden = False\<rparr>) (errorBox p)"
    and "errorBox p \<noteq> None \<longrightarrow>
           barcodeInput (page_of (submit_resume fetched p)) =
             map_option (\<lambda>i. i\<lparr>has_error := True\<rparr>) (barcodeInput p)"
    and "loadingOverlay (page_of (submit_resume fetched p)) =
           map_option (\<lambda>h. True) (loadingOverlay p)"
  using assms(2-4)
  by (simp_all add: submit_resume_failure [OF assms(1)])

lemma not_found_response_facts:
  "\<not> ok not_found_response"
  "json_body not_found_response = Inr (JObj [(js ''error'', JStr (js ''not found''))])"
  "optional_error (JObj [(js ''error'', JStr (js ''not found''))]) = Some (JStr (js ''not found''))"
  "js ''not found'' \<noteq> []"
  by (simp_all add: not_found_response_def ok_def optional_error_def js_def)

lemma requested_page_fields:
  "errorBox requested_page = Some \<lparr>textContent = [], hidden = True\<rparr>"
  "barcodeInput requested_page = Some \<lparr>input_value = js ''X1'', has_error = False\<rparr>"
  "loadingOverlay requested_page = Some False"
  "successBox requested_page = Some \<lparr>textContent = [], hidden = True\<rparr>"
  "resultsPanel requested_page = Some True"
  "summaryContainer requested_page = Some []"
  "timelineContainer requested_page = Some []"
  "rawSection requested_page = Some \<lparr>raw_hidden = True, pre = Some []\<rparr>"
  by (simp_all add: requested_page_eq example_page_def barcodeInput_def)

lemma ok_response_facts:
  "ok ok_response" "json_body ok_response = Inr example_result"
  by (simp_all add: ok_response_def ok_def)

lemma example_result_views:
  "renderSummary example_result example_page =
     Returned (example_page\<lparr>summaryContainer :=
       Some [summary_entry 0 LABEL_BARCODE (js ''X1''),
             summary_entry 1 LABEL_CURRENT_STATUS (js ''Delivered'')]\<rparr>)"
proof -
  have sc: "summaryContainer example_page = Some []"
    by (simp add: example_page_def)
  have f: "field_string example_result (js ''barcode'') = js ''X1''"
    "field_string example_result (js ''current_status'') = js ''Delivered''"
    by (simp_all add: field_string_def example_result_def js_def)
  show ?thesis
    using renderSummary_TrackingResult [OF example_result_TrackingResult sc]
    by (auto simp: example_result_fields f)
qed

lemma raw_result_payload:
  "raw_result \<noteq> JNull"
  "get raw_result (js ''raw_response'') = Inr (Some (JObj [(js ''code'', JNum (NFinite (js ''1e+21'')))]))"
  "raw_payload raw_result = JObj [(js ''code'', JNum (NFinite (js ''1e+21'')))]"
  by (simp_all add: raw_result_def raw_payload_def js_def)

lemma js_code: "js ''code'' = [0x63, 0x6F, 0x64, 0x65]"
  by (simp add: js_def)

lemma quote_code: "quoteJSONString [0x63, 0x6F, 0x64, 0x65] = [0x22, 0x63, 0x6F, 0x64, 0x65, 0x22]"
  by (simp add: quoteJSONString_def is_lead_surrogate_def is_trail_surrogate_def)

lemma stringify_code_example:
  "JSON_stringify (JObj [(js ''code'', JNum (NFinite (js ''1e+21'')))]) 2 =
     [0x7B, 0xA, 0x20, 0x20, 0x22] @ js ''code'' @ [0x22, 0x3A, 0x20] @ js ''1e+21'' @ [0xA, 0x7D]"
  by (simp add: JSON_stringify_def Let_def js_code quote_code numeral_2_eq_2)

lemma stringify_false: "JSON_stringify (JBool False) 2 = js ''false''"
  by (simp add: JSON_stringify_def)

lemma stringify_false_raw_result:
  "hd (JSON_stringify false_raw_result 2) = 0x7B"
  by (simp add: JSON_stringify_def false_raw_result_def Let_def)

lemma showError_value:
  assumes "toString (or_else (Some msg) (JStr [])) = Inr s"
  shows "returned (showError msg p)"
    and "errorBox (page_of (showError msg p)) =
           map_option (\<lambda>b. \<lparr>textContent = s, hidden = \<not> truthy msg\<rparr>) (errorBox p)"
    and "barcodeInput (page_of (showError msg p)) =
           (if errorBox p = None then barcodeInput p
            else map_option (\<lambda>i. i\<lparr>has_error := truthy msg\<rparr>) (barcodeInput p))"
  using assms
  by (simp_all add: showError_def toggle_has_error_def barcodeInput_def Let_def
      split: option.splits)

lemma hydrate_with_error:
  assumes "readJSONScript parse (initial_tracking p) = data" and "is_TrackingResult data"
    and "readJSONScript parse (initial_error p) = e" and "truthy e"
  shows "hydrateInitialState parse p =
           showError e (clearSuccess (page_of (renderResult data p)))"
  using assms(3,4) by (simp add: hydrate_result [OF assms(1,2)] Let_def)

lemma renderResult_errorBox_any:
  assumes "is_TrackingResult data"
  shows "(errorBox (page_of (renderResult data p)) = None) = (errorBox p = None)"
  by (cases "resultsPanel p")
     (simp_all add: renderResult_no_panel renderResult_views [OF assms])

lemma renderResult_barcodeInput_any:
  assumes "is_TrackingResult data"
  shows "map_option (\<lambda>i. i\<lparr>has_error := b\<rparr>) (barcodeInput (page_of (renderResult data p))) =
         map_option (\<lambda>i. i\<lparr>has_error := b\<rparr>) (barcodeInput p)"
  by (cases "resultsPanel p")
     (simp_all add: renderResult_no_panel renderResult_views [OF assms] option.map_comp o_def)


lemma trim_unchanged:
  assumes "s \<noteq> []" and "\<not> isWhiteSpace (hd s)" and "\<not> isWhiteSpace (last s)"
  shows "trim s = s"
proof -
  have 1: "dropWhile isWhiteSpace s = s"
    using assms(1,2) by (cases s) simp_all
  have "rev s \<noteq> []" and "\<not> isWhiteSpace (hd (rev s))"
    using assms(1,3) by (simp_all add: hd_rev)
  then have 2: "dropWhile isWhiteSpace (rev s) = rev s"
    by (cases "rev s") simp_all
  show ?thesis
    by (simp add: trim_def 1 2)
qed

lemma stringify_object_compact:
  "kvs \<noteq> [] \<Longrightarrow> \<exists>inner. JSON_stringify (JObj kvs) 0 = [0x7B] @ inner @ [0x7D]"
  by (simp add: JSON_stringify_def Let_def)

lemma example_tracking_text:
  "trim (JSON_stringify example_result 0) = JSON_stringify example_result 0"
  "JSON_stringify example_result 0 \<noteq> []"
  "hd (JSON_stringify example_result 0) = 0x7B"
proof -
  obtain inner where t: "JSON_stringify example_result 0 = [0x7B] @ inner @ [0x7D]"
    using stringify_object_compact [of "[(js ''barcode'', JStr (js ''X1'')),
           (js ''current_status'', JStr (js ''Delivered'')),
           (js ''sender'', JStr []),
           (js ''events'',
            JArr [JObj [(js ''date'', JStr (js ''2024-01-01'')),
                        (js ''description'', JStr (js ''Accepted''))],
                  JObj []])]"]
    by (auto simp: example_result_def)
  show "trim (JSON_stringify example_result 0) = JSON_stringify example_result 0"
    by (rule trim_unchanged) (simp_all add: t isWhiteSpace_def)
  show "JSON_stringify example_result 0 \<noteq> []" and "hd (JSON_stringify example_result 0) = 0x7B"
    by (simp_all add: t)
qed

lemma example_error_text_facts:
  "trim example_error_text = example_error_text"
  "example_error_text \<noteq> []"
  "example_error_text \<noteq> JSON_stringify example_result 0"
proof -
  show "trim example_error_text = example_error_text"
    by (rule trim_unchanged) (simp_all add: example_error_text_def isWhiteSpace_def)
  show "example_error_text \<noteq> []"
    by (simp add: example_error_text_def)
  have "hd example_error_text \<noteq> hd (JSON_stringify example_result 0)"
    by (simp add: example_tracking_text example_error_text_def)
  then show "example_error_text \<noteq> JSON_stringify example_result 0"
    by auto
qed

lemma hydrated_page_fields:
  "initial_tracking hydrated_page = Some (JSON_stringify example_result 0)"
  "initial_error hydrated_page = Some example_error_text"
  "resultsPanel hydrated_page = Some True"
  "summaryContainer hydrated_page = Some []"
  "successBox hydrated_page = Some \<lparr>textContent = [], hidden = True\<rparr>"
  "errorBox hydrated_page = Some \<lparr>textContent = [], hidden = True\<rparr>"
  "barcodeInput hydrated_page = Some \<lparr>input_value = js ''X1'', has_error = False\<rparr>"
  by (simp_all add: hydrated_page_def example_page_def barcodeInput_def)

lemma example_parse_facts:
  "example_parse (trim (JSON_stringify example_result 0)) = Inr example_result"
  "example_parse (trim example_error_text) = Inr (JStr (js ''bad code''))"
  by (simp_all add: example_parse_def example_tracking_text example_error_text_facts)


lemma absent_is_noop:
  "loadingOverlay p = None \<Longrightarrow> toggleLoading state p = p"
  "successBox p = None \<Longrightarrow> clearSuccess p = p"
  "successBox p = None \<Longrightarrow> showSuccess m p = p"
  "errorBox p = None \<Longrightarrow> showError msg p = Returned p"
  "summaryContainer p = None \<Longrightarrow> renderSummary data p = Returned p"
  "timelineContainer p = None \<Longrightarrow> renderTimeline ev p = Returned p"
  "timelineContainer p = None \<Longrightarrow> renderEmpty p = p"
  "rawSection p = None \<or> rawPre p = None \<Longrightarrow> renderRawResponse data p = Returned p"
  "form p = None \<Longrightarrow> submit_begin p = NotRegistered"
  "form p = None \<Longrightarrow> on_input p = Returned p"
  by (auto simp: toggleLoading_def clearSuccess_def showSuccess_def showError_def
      renderSummary_def renderTimeline_def renderEmpty_def renderRawResponse_def rawPre_def
      submit_begin_def on_input_def barcodeInput_def split: option.splits)

lemma on_input_returned: "returned (on_input p)"
  by (simp add: on_input_def Let_def split: option.splits)

lemma submit_begin_returned:
  "is_Completed (submit_begin p) \<Longrightarrow> returned (outcome_of (submit_begin p))"
  by (cases "submit_begin p") (auto dest: submit_begin_Completed)

lemma renderSummary_other_update [simp]:
  "summaryContainer (page_of (renderSummary data (p\<lparr>timelineContainer := a\<rparr>))) =
     summaryContainer (page_of (renderSummary data p))"
  "summaryContainer (page_of (renderSummary data (p\<lparr>rawSection := b\<rparr>))) =
     summaryContainer (page_of (renderSummary data p))"
  "summaryContainer (page_of (renderSummary data (p\<lparr>successBox := c\<rparr>))) =
     summaryContainer (page_of (renderSummary data p))"
  "summaryContainer (page_of (renderSummary data (p\<lparr>loadingOverlay := d\<rparr>))) =
     summaryContainer (page_of (renderSummary data p))"
  by (rule renderSummary_depends, simp)+

lemma renderTimeline_other_update [simp]:
  "timelineContainer (page_of (renderTimeline ev (p\<lparr>summaryContainer := a\<rparr>))) =
     timelineContainer (page_of (renderTimeline ev p))"
  "timelineContainer (page_of (renderTimeline ev (p\<lparr>rawSection := b\<rparr>))) =
     timelineContainer (page_of (renderTimeline ev p))"
  "timelineContainer (page_of (renderTimeline ev (p\<lparr>successBox := c\<rparr>))) =
     timelineContainer (page_of (renderTimeline ev p))"
  "timelineContainer (page_of (renderTimeline ev (p\<lparr>loadingOverlay := d\<rparr>))) =
     timelineContainer (page_of (renderTimeline ev p))"
  by (rule renderTimeline_depends, simp)+

lemma renderRawResponse_other_update [simp]:
  "rawSection (page_of (renderRawResponse data (p\<lparr>summaryContainer := a\<rparr>))) =
     rawSection (page_of (renderRawResponse data p))"
  "rawSection (page_of (renderRawResponse data (p\<lparr>timelineContainer := b\<rparr>))) =
     rawSection (page_of (renderRawResponse data p))"
  "rawSection (page_of (renderRawResponse data (p\<lparr>successBox := c\<rparr>))) =
     rawSection (page_of (renderRawResponse data p))"
  "rawSection (page_of (renderRawResponse data (p\<lparr>loadingOverlay := d\<rparr>))) =
     rawSection (page_of (renderRawResponse data p))"
  by (rule renderRawResponse_depends, simp)+

lemma render_absent [simp]:
  "summaryContainer (page_of (renderSummary data (p\<lparr>summaryContainer := None\<rparr>))) = None"
  "timelineContainer (page_of (renderTimeline ev (p\<lparr>timelineContainer := None\<rparr>))) = None"
  "rawSection (page_of (renderRawResponse data (p\<lparr>rawSection := None\<rparr>))) = None"
  by (simp_all add: renderSummary_def renderTimeline_def renderRawResponse_def)

lemma renderResult_without:
  assumes "is_TrackingResult data" and "resultsPanel p = Some h"
  shows "page_of (renderResult data (p\<lparr>summaryContainer := None\<rparr>)) =
           (page_of (renderResult data p))\<lparr>summaryContainer := None\<rparr>"
    and "page_of (renderResult data (p\<lparr>timelineContainer := None\<rparr>)) =
           (page_of (renderResult data p))\<lparr>timelineContainer := None\<rparr>"
    and "page_of (renderResult data (p\<lparr>rawSection := None\<rparr>)) =
           (page_of (renderResult data p))\<lparr>rawSection := None\<rparr>"
    and "page_of (renderResult data (p\<lparr>successBox := None\<rparr>)) =
           (page_of (renderResult data p))\<lparr>successBox := None\<rparr>"
    and "page_of (renderResult data (p\<lparr>loadingOverlay := None\<rparr>)) =
           (page_of (renderResult data p))\<lparr>loadingOverlay := None\<rparr>"
proof -
  note v = renderResult_views [OF assms] renderResult_form [OF assms]
  have 1: "resultsPanel (p\<lparr>summaryContainer := None\<rparr>) = Some h"
    and 2: "resultsPanel (p\<lparr>timelineContainer := None\<rparr>) = Some h"
    and 3: "resultsPanel (p\<lparr>rawSection := None\<rparr>) = Some h"
    and 4: "resultsPanel (p\<lparr>successBox := None\<rparr>) = Some h"
    and 5: "resultsPanel (p\<lparr>loadingOverlay := None\<rparr>) = Some h"
    by (simp_all add: assms(2))
  show "page_of (renderResult data (p\<lparr>summaryContainer := None\<rparr>)) =
           (page_of (renderResult data p))\<lparr>summaryContainer := None\<rparr>"
    by (rule page.equality)
       (simp_all add: v renderResult_views [OF assms(1) 1] renderResult_form [OF assms(1) 1])
  show "page_of (renderResult data (p\<lparr>timelineContainer := None\<rparr>)) =
           (page_of (renderResult data p))\<lparr>timelineContainer := None\<rparr>"
    by (rule page.equality)
       (simp_all add: v renderResult_views [OF assms(1) 2] renderResult_form [OF assms(1) 2])
  show "page_of (renderResult data (p\<lparr>rawSection := None\<rparr>)) =
           (page_of (renderResult data p))\<lparr>rawSection := None\<rparr>"
    by (rule page.equality)
       (simp_all add: v renderResult_views [OF assms(1) 3] renderResult_form [OF assms(1) 3])
  show "page_of (renderResult data (p\<lparr>successBox := None\<rparr>)) =
           (page_of (renderResult data p))\<lparr>successBox := None\<rparr>"
    by (rule page.equality)
       (simp_all add: v renderResult_views [OF assms(1) 4] renderResult_form [OF assms(1) 4])
  show "page_of (renderResult data (p\<lparr>loadingOverlay := None\<rparr>)) =
           (page_of (renderResult data p))\<lparr>loadingOverlay := None\<rparr>"
    by (rule page.equality)
       (simp_all add: v renderResult_views [OF assms(1) 5] renderResult_form [OF assms(1) 5])
qed

lemma submit_resume_without_loading:
  assumes "ok r" and "json_body r = Inr data" and "is_TrackingResult data"
    and "resultsPanel p = Some h"
  shows "page_of (submit_resume (Inr r) (p\<lparr>loadingOverlay := None\<rparr>)) =
           (page_of (submit_resume (Inr r) p))\<lparr>loadingOverlay := None\<rparr>"
  by (simp add: submit_resume_success [OF assms(1,2) renderResult_returned [OF assms(3)]]
      renderResult_without(5) [OF assms(3,4)] toggleLoading_def split: option.splits)

lemma example_page_fields:
  "resultsPanel example_page = Some True"
  "summaryContainer example_page = Some []"
  "successBox example_page = Some \<lparr>textContent = [], hidden = True\<rparr>"
  "errorBox example_page = Some \<lparr>textContent = [], hidden = True\<rparr>"
  "loadingOverlay example_page = Some True"
  by (simp_all add: example_page_def)

lemma bare_page_fields:
  "form bare_page = None" "resultsPanel bare_page = None" "summaryContainer bare_page = None"
  "timelineContainer bare_page = None" "rawSection bare_page = None" "errorBox bare_page = None"
  "successBox bare_page = None" "loadingOverlay bare_page = None"
  by (simp_all add: bare_page_def)

lemma empty_state_texts_nonempty:
  "SUMMARY_EMPTY_TITLE \<noteq> []" "SUMMARY_EMPTY_MESSAGE \<noteq> []"
  "TIMELINE_EMPTY_TITLE \<noteq> []" "TIMELINE_EMPTY_MESSAGE \<noteq> []"
  by (simp_all add: SUMMARY_EMPTY_TITLE_def SUMMARY_EMPTY_MESSAGE_def
      TIMELINE_EMPTY_TITLE_def TIMELINE_EMPTY_MESSAGE_def)

lemma summary_placeholder_block:
  "summary_placeholder =
     Element ''div'' ''empty-state'' None
       [Element ''h3'' [] None [Text SUMMARY_EMPTY_TITLE],
        Element ''p'' [] None [Text SUMMARY_EMPTY_MESSAGE]]"
  by (simp add: summary_placeholder_def createElement_def Let_def empty_state_texts_nonempty)

lemma timeline_empty_state_block:
  "timeline_empty_state =
     Element ''div'' ''empty-state'' None
       [Element ''h3'' [] None [Text TIMELINE_EMPTY_TITLE],
        Element ''p'' [] None [Text TIMELINE_EMPTY_MESSAGE]]"
  by (simp add: timeline_empty_state_def createElement_def Let_def empty_state_texts_nonempty)

lemma blank_sender_fields: "nonempty_fields (JObj [(js ''sender'', JStr [])]) = []"
  by (simp add: nonempty_fields_def summary_keys_def field_string_def js_def)

lemma blank_sender_TrackingResult: "is_TrackingResult (JObj [(js ''sender'', JStr [])])"
  by (simp add: optional_string_def js_def)

lemma empty_error_text_facts:
  "trim empty_error_text = empty_error_text"
  "empty_error_text \<noteq> []"
  "empty_error_text \<noteq> JSON_stringify example_result 0"
  "empty_error_text \<noteq> example_error_text"
proof -
  show "trim empty_error_text = empty_error_text"
    by (rule trim_unchanged) (simp_all add: empty_error_text_def isWhiteSpace_def)
  show "empty_error_text \<noteq> []"
    by (simp add: empty_error_text_def)
  have "hd empty_error_text \<noteq> hd (JSON_stringify example_result 0)"
    by (simp add: example_tracking_text empty_error_text_def)
  then show "empty_error_text \<noteq> JSON_stringify example_result 0"
    by auto
  show "empty_error_text \<noteq> example_error_text"
    by (simp add: empty_error_text_def example_error_text_def js_def)
qed

lemma empty_error_page_fields:
  "initial_tracking empty_error_page = Some (JSON_stringify example_result 0)"
  "initial_error empty_error_page = Some empty_error_text"
  "resultsPanel empty_error_page = Some True"
  "errorBox empty_error_page = Some \<lparr>textContent = [], hidden = True\<rparr>"
  "barcodeInput empty_error_page = Some \<lparr>input_value = js ''X1'', has_error = False\<rparr>"
  by (simp_all add: empty_error_page_def example_page_def barcodeInput_def)

lemma example_parse_empty_error:
  "example_parse (trim empty_error_text) = Inr (JStr [])"
  by (simp add: example_parse_def empty_error_text_facts)

section \<open>The claims\<close>

subsection \<open>Summary view\<close>

text \<open>
  Claim C5.  For every TrackingResult, the summary container ends up holding exactly
  one entry per non-empty field among \<open>barcode\<close>, \<open>current_status\<close>, \<open>sender\<close> and
  \<open>receiver\<close>, in that fixed order, with the empty and absent ones left out; the
  \<open>i\<close>-th entry carries the label and the value of the \<open>i\<close>-th non-empty field.
  When none of the four is non-empty, the container holds the placeholder block
  instead: a \<open>div\<close> of class \<open>empty-state\<close> with the title in an \<open>h3\<close> and the
  explanation in a \<open>p\<close>.
\<close>

theorem summary_renders_nonempty_fields:
  assumes "is_TrackingResult data" and "summaryContainer p = Some old"
  shows "\<exists>nodes. renderSummary data p = Returned (p\<lparr>summaryContainer := Some nodes\<rparr>) \<and>
           (nonempty_fields data = [] \<longrightarrow>
              nodes = [Element ''div'' ''empty-state'' None
                         [Element ''h3'' [] None [Text SUMMARY_EMPTY_TITLE],
                          Element ''p'' [] None [Text SUMMARY_EMPTY_MESSAGE]]]) \<and>
           (nonempty_fields data \<noteq> [] \<longrightarrow>
              length nodes = length (nonempty_fields data) \<and>
              nodes = map (\<lambda>(i, key, label). summary_entry i label (field_string data key))
                        (enumerate 0 (nonempty_fields data)))"
proof (cases "nonempty_fields data = []")
  case True
  then show ?thesis
    using renderSummary_TrackingResult [OF assms] by (simp add: summary_placeholder_block)
next
  case False
  then show ?thesis
    using renderSummary_TrackingResult [OF assms] by (simp add: split_def)
qed

text \<open>
  On the example result (barcode and status filled, sender empty, receiver absent)
  two entries are rendered, the barcode before the status.  On a result whose only
  field is an empty sender the placeholder block is rendered.
\<close>

theorem summary_renders_nonempty_fields_witness:
  "is_TrackingResult example_result \<and> summaryContainer example_page = Some [] \<and>
   length (nonempty_fields example_result) = 2 \<and>
   renderSummary example_result example_page =
     Returned (example_page\<lparr>summaryContainer :=
       Some [summary_entry 0 LABEL_BARCODE (js ''X1''),
             summary_entry 1 LABEL_CURRENT_STATUS (js ''Delivered'')]\<rparr>) \<and>
   is_TrackingResult (JObj [(js ''sender'', JStr [])]) \<and>
   nonempty_fields (JObj [(js ''sender'', JStr [])]) = [] \<and>
   renderSummary (JObj [(js ''sender'', JStr [])]) example_page =
     Returned (example_page\<lparr>summaryContainer :=
       Some [Element ''div'' ''empty-state'' None
               [Element ''h3'' [] None [Text SUMMARY_EMPTY_TITLE],
                Element ''p'' [] None [Text SUMMARY_EMPTY_MESSAGE]]]\<rparr>)"
proof -
  have tr: "is_TrackingResult example_result"
    by (rule example_result_TrackingResult)
  have sc: "summaryContainer example_page = Some []"
    by (simp add: example_page_def)
  have f: "field_string example_result (js ''barcode'') = js ''X1''"
    "field_string example_result (js ''current_status'') = js ''Delivered''"
    by (simp_all add: field_string_def example_result_def js_def)
  have a: "renderSummary example_result example_page =
     Returned (example_page\<lparr>summaryContainer :=
       Some [summary_entry 0 LABEL_BARCODE (js ''X1''),
             summary_entry 1 LABEL_CURRENT_STATUS (js ''Delivered'')]\<rparr>)"
    using summary_renders_nonempty_fields [OF tr sc]
    by (auto simp: example_result_fields f)
  have b: "renderSummary (JObj [(js ''sender'', JStr [])]) example_page =
     Returned (example_page\<lparr>summaryContainer :=
       Some [Element ''div'' ''empty-state'' None
               [Element ''h3'' [] None [Text SUMMARY_EMPTY_TITLE],
                Element ''p'' [] None [Text SUMMARY_EMPTY_MESSAGE]]]\<rparr>)"
    using summary_renders_nonempty_fields [OF blank_sender_TrackingResult sc]
    by (auto simp: blank_sender_fields)
  show ?thesis
    using a b tr sc blank_sender_TrackingResult
    by (simp add: example_result_fields blank_sender_fields del: is_TrackingResult.simps)
qed

subsection \<open>Timeline view\<close>

text \<open>
  Claim C6.  The timeline container ends up holding the empty-state block (a \<open>div\<close>
  of class \<open>empty-state\<close> with the title in an \<open>h3\<close> and the explanation in a \<open>p\<close>)
  when the events are absent (whether \<open>undefined\<close> is passed or the \<open>[]\<close> that
  \<open>renderResult\<close> substitutes) or empty.  For a non-empty sequence of events it holds one ordered list
  with exactly one item per event, the \<open>i\<close>-th item built from the \<open>i\<close>-th event, where
  date, time, description and location are each the field of that event or, when
  the field is absent, its own placeholder.
\<close>

theorem timeline_renders_events:
  assumes "timelineContainer p = Some old"
  shows "renderTimeline None p = Returned (p\<lparr>timelineContainer := Some [Element ''div'' ''empty-state'' None
                          [Element ''h3'' [] None [Text TIMELINE_EMPTY_TITLE],
                           Element ''p'' [] None [Text TIMELINE_EMPTY_MESSAGE]]]\<rparr>) \<and>
         renderTimeline (Some (or_else None (JArr []))) p =
           Returned (p\<lparr>timelineContainer := Some [Element ''div'' ''empty-state'' None
                          [Element ''h3'' [] None [Text TIMELINE_EMPTY_TITLE],
                           Element ''p'' [] None [Text TIMELINE_EMPTY_MESSAGE]]]\<rparr>) \<and>
         renderTimeline (Some (JArr [])) p =
           Returned (p\<lparr>timelineContainer := Some [Element ''div'' ''empty-state'' None
                          [Element ''h3'' [] None [Text TIMELINE_EMPTY_TITLE],
                           Element ''p'' [] None [Text TIMELINE_EMPTY_MESSAGE]]]\<rparr>) \<and>
         (evs \<noteq> [] \<and> list_all is_TimelineEvent evs \<longrightarrow>
            renderTimeline (Some (JArr evs)) p =
              Returned (p\<lparr>timelineContainer :=
                           Some [Element ''ol'' ''timeline-list'' None (timeline_view evs)]\<rparr>) \<and>
            length (timeline_view evs) = length evs \<and>
            (\<forall>i < length evs.
               timeline_view evs ! i =
                 timeline_entry i (event_field (evs ! i) (js ''date'') (js ''-''))
                   (event_field (evs ! i) (js ''time'') (js ''-''))
                   (event_field (evs ! i) (js ''description'') UNKNOWN_STATUS)
                   (event_field (evs ! i) (js ''location'') UNKNOWN_LOCATION)) \<and>
            (\<forall>i < length evs. \<forall>key fallback.
               get (evs ! i) key = Inr None \<longrightarrow> event_field (evs ! i) key fallback = fallback))"
proof -
  have empty: "renderTimeline None p = Returned (p\<lparr>timelineContainer := Some [Element ''div'' ''empty-state'' None
                          [Element ''h3'' [] None [Text TIMELINE_EMPTY_TITLE],
                           Element ''p'' [] None [Text TIMELINE_EMPTY_MESSAGE]]]\<rparr>)"
    "renderTimeline (Some (JArr [])) p =
       Returned (p\<lparr>timelineContainer := Some [Element ''div'' ''empty-state'' None
                          [Element ''h3'' [] None [Text TIMELINE_EMPTY_TITLE],
                           Element ''p'' [] None [Text TIMELINE_EMPTY_MESSAGE]]]\<rparr>)"
    by (simp_all add: renderTimeline_def renderEmpty_def assms timeline_empty_state_block)
  have list: "renderTimeline (Some (JArr evs)) p =
           Returned (p\<lparr>timelineContainer :=
                        Some [Element ''ol'' ''timeline-list'' None (timeline_view evs)]\<rparr>)"
    if "evs \<noteq> []" "list_all is_TimelineEvent evs"
    using that
    by (simp add: renderTimeline_def assms timeline_loop createElement_def foldl_appendChild)
  have len: "length (timeline_view evs) = length evs"
    by (simp add: timeline_view_def)
  have nth: "timeline_view evs ! i =
                 timeline_entry i (event_field (evs ! i) (js ''date'') (js ''-''))
                   (event_field (evs ! i) (js ''time'') (js ''-''))
                   (event_field (evs ! i) (js ''description'') UNKNOWN_STATUS)
                   (event_field (evs ! i) (js ''location'') UNKNOWN_LOCATION)"
    if "i < length evs" for i
    using that by (simp add: timeline_view_def nth_enumerate_eq)
  have fb: "event_field ev key fallback = fallback" if "get ev key = Inr None"
    for ev key fallback
    using that by (simp add: event_field_def field_string_def)
  show ?thesis
    using empty list len nth fb by simp
qed

text \<open>
  Two events, the second with no field at all: two items in the order received, the
  second made of placeholders only.
\<close>

theorem timeline_renders_events_witness:
  "timelineContainer example_page = Some [] \<and>
   [JObj [(js ''date'', JStr (js ''2024-01-01'')), (js ''description'', JStr (js ''Accepted''))],
    JObj []] \<noteq> [] \<and>
   list_all is_TimelineEvent
     [JObj [(js ''date'', JStr (js ''2024-01-01'')), (js ''description'', JStr (js ''Accepted''))],
      JObj []] \<and>
   renderTimeline None example_page =
     Returned (example_page\<lparr>timelineContainer := Some [Element ''div'' ''empty-state'' None
                          [Element ''h3'' [] None [Text TIMELINE_EMPTY_TITLE],
                           Element ''p'' [] None [Text TIMELINE_EMPTY_MESSAGE]]]\<rparr>) \<and>
   renderTimeline
     (Some (JArr [JObj [(js ''date'', JStr (js ''2024-01-01'')),
                        (js ''description'', JStr (js ''Accepted''))],
                  JObj []])) example_page =
     Returned (example_page\<lparr>timelineContainer :=
       Some [Element ''ol'' ''timeline-list'' None
               [timeline_entry 0 (js ''2024-01-01'') (js ''-'') (js ''Accepted'') UNKNOWN_LOCATION,
                timeline_entry 1 (js ''-'') (js ''-'') UNKNOWN_STATUS UNKNOWN_LOCATION]]\<rparr>)"
proof -
  let ?evs = "[JObj [(js ''date'', JStr (js ''2024-01-01'')), (js ''description'', JStr (js ''Accepted''))],
    JObj []]"
  have tc: "timelineContainer example_page = Some []"
    by (simp add: example_page_def)
  have ev: "list_all is_TimelineEvent ?evs"
    by (simp add: optional_string_def js_def)
  have view: "timeline_view ?evs =
     [timeline_entry 0 (js ''2024-01-01'') (js ''-'') (js ''Accepted'') UNKNOWN_LOCATION,
      timeline_entry 1 (js ''-'') (js ''-'') UNKNOWN_STATUS UNKNOWN_LOCATION]"
    by (simp add: timeline_view_def event_field_def field_string_def js_def)
  show ?thesis
    using timeline_renders_events [OF tc, of ?evs] tc ev
    by (simp add: view)
qed

subsection \<open>Raw view\<close>

text \<open>
  Claim C7, as amended.  For a result that is not \<open>null\<close>, on a page with the raw
  section and its \<open>pre\<close>, the section becomes visible and the \<open>pre\<close> holds
  \<open>JSON.stringify\<close> with a gap of two spaces of \<open>raw_response\<close> when that is truthy,
  and of the whole result when \<open>raw_response\<close> is absent or falsy (\<open>null\<close>, \<open>false\<close>,
  \<open>0\<close>, the empty string).  The value serialized is the one received.
\<close>

theorem raw_view_serializes_payload:
  assumes "data \<noteq> JNull" and "rawSection p = Some r" and "pre r = Some t"
  shows "renderRawResponse data p =
           Returned (p\<lparr>rawSection :=
                        Some \<lparr>raw_hidden = False,
                              pre = Some (JSON_stringify (raw_payload data) 2)\<rparr>\<rparr>) \<and>
         JSON_stringify (raw_payload data) 2 = serialize [0x20, 0x20] [] (raw_payload data) \<and>
         (get data (js ''raw_response'') = Inr None \<longrightarrow> raw_payload data = data) \<and>
         (\<forall>v. get data (js ''raw_response'') = Inr (Some v) \<longrightarrow>
              raw_payload data = (if truthy v then v else data))"
  using renderRawResponse_shown [OF assms]
  by (simp add: raw_payload_def JSON_stringify_def numeral_2_eq_2)

text \<open>
  A \<open>raw_response\<close> of \<open>{"code": 1e21}\<close> is shown on three lines, indented by two,
  the number as \<open>Number::toString\<close> writes it.
\<close>

theorem raw_view_serializes_payload_witness:
  "raw_result \<noteq> JNull \<and>
   rawSection example_page = Some \<lparr>raw_hidden = True, pre = Some []\<rparr> \<and>
   get raw_result (js ''raw_response'') = Inr (Some (JObj [(js ''code'', JNum (NFinite (js ''1e+21'')))])) \<and>
   renderRawResponse raw_result example_page =
     Returned (example_page\<lparr>rawSection :=
       Some \<lparr>raw_hidden = False,
             pre = Some ([0x7B, 0xA, 0x20, 0x20, 0x22] @ js ''code''
                         @ [0x22, 0x3A, 0x20] @ js ''1e+21'' @ [0xA, 0x7D])\<rparr>\<rparr>)"
proof -
  have rs: "rawSection example_page = Some \<lparr>raw_hidden = True, pre = Some []\<rparr>"
    by (simp add: example_page_def)
  have pr: "pre \<lparr>raw_hidden = True, pre = Some []\<rparr> = Some []"
    by simp
  from raw_view_serializes_payload [OF raw_result_payload(1) rs pr]
  show ?thesis
    by (simp add: raw_result_payload rs stringify_code_example)
qed

text \<open>
  Claim C7 as stated fails when \<open>raw_response\<close> is present and falsy: for a result
  whose \<open>raw_response\<close> is \<open>false\<close> the panel shows the whole result, not \<open>false\<close>.
\<close>

theorem raw_view_serializes_payload_counterexample:
  "get false_raw_result (js ''raw_response'') = Inr (Some (JBool False)) \<and>
   rawSection (page_of (renderRawResponse false_raw_result example_page)) =
     Some \<lparr>raw_hidden = False, pre = Some (JSON_stringify false_raw_result 2)\<rparr> \<and>
   JSON_stringify false_raw_result 2 \<noteq> JSON_stringify (JBool False) 2"
proof -
  have g: "get false_raw_result (js ''raw_response'') = Inr (Some (JBool False))"
    by (simp add: false_raw_result_def js_def)
  have rp: "raw_payload false_raw_result = false_raw_result"
    by (simp add: raw_payload_def g)
  have nn: "false_raw_result \<noteq> JNull"
    by (simp add: false_raw_result_def)
  have rs: "rawSection example_page = Some \<lparr>raw_hidden = True, pre = Some []\<rparr>"
    by (simp add: example_page_def)
  have pr: "pre \<lparr>raw_hidden = True, pre = Some []\<rparr> = Some []"
    by simp
  have "hd (JSON_stringify false_raw_result 2) \<noteq> hd (JSON_stringify (JBool False) 2)"
    by (simp add: stringify_false_raw_result stringify_false js_def)
  then have ne: "JSON_stringify false_raw_result 2 \<noteq> JSON_stringify (JBool False) 2"
    by auto
  show ?thesis
    using ne by (simp add: g renderRawResponse_shown [OF nn rs pr] rp)
qed

subsection \<open>Local validation\<close>

text \<open>
  Claim C2.  When the handler runs on a page whose barcode field holds a value that
  trims to the empty string, it is over at once: no request is started (the step is
  not \<open>Awaiting\<close>, and the result does not depend on the network), the handler
  returns, and the error region, where the page has one, holds the validation message
  and is visible.
\<close>

theorem empty_barcode_is_local_failure:
  assumes "hasFetch p" and "barcodeInput p = Some i" and "trim (input_value i) = []"
  shows "submit_begin p = Completed (showError (JStr VALIDATION_MESSAGE) (clearSuccess p)) \<and>
         \<not> is_Awaiting (submit_begin p) \<and>
         submit network p = submit_begin p \<and>
         returned (outcome_of (submit_begin p)) \<and>
         errorBox (page_of (outcome_of (submit_begin p))) =
           map_option (\<lambda>b. \<lparr>textContent = VALIDATION_MESSAGE, hidden = False\<rparr>) (errorBox p)"
  by (simp add: submit_begin_validation [OF assms] submit_def VALIDATION_MESSAGE_nonempty)

text \<open>A field of three blanks on the example page.\<close>

theorem empty_barcode_is_local_failure_witness:
  "hasFetch blank_page \<and>
   barcodeInput blank_page = Some \<lparr>input_value = js ''   '', has_error = False\<rparr> \<and>
   trim (js ''   '') = [] \<and>
   \<not> is_Awaiting (submit_begin blank_page) \<and>
   errorBox (page_of (outcome_of (submit_begin blank_page))) =
     Some \<lparr>textContent = VALIDATION_MESSAGE, hidden = False\<rparr>"
proof -
  have a: "hasFetch blank_page"
    and b: "barcodeInput blank_page = Some \<lparr>input_value = js ''   '', has_error = False\<rparr>"
    and c: "errorBox blank_page = Some \<lparr>textContent = [], hidden = True\<rparr>"
    by (simp_all add: blank_page_eq example_page_def barcodeInput_def)
  have d: "trim (input_value \<lparr>input_value = js ''   '', has_error = False\<rparr>) = []"
    by (simp add: trim_blanks)
  show ?thesis
    using empty_barcode_is_local_failure [OF a b d] a b
    by (simp add: c trim_blanks VALIDATION_MESSAGE_nonempty)
qed

subsection \<open>Successful submissions\<close>




subsection \<open>Server errors\<close>

text \<open>
  Claim C3, as amended.  For a response whose status is not 2xx, the error region
  shows: the \<open>error\<close> field of the body when that is a non-empty string; the generic
  fallback when the body has no \<open>error\<close> field or a falsy one (the empty string
  included); and, when the body cannot be read as JSON, the non-empty message of that
  failure.  In each case the region is visible, the barcode field is flagged when
  there is an error region, and the loading indicator is hidden.
\<close>

theorem server_error_is_shown:
  assumes "\<not> ok r"
    and "(\<exists>payload. json_body r = Inr payload \<and> optional_error payload = Some (JStr m) \<and> m \<noteq> [])
         \<or> (\<exists>payload. json_body r = Inr payload \<and> \<not> truthy_opt (optional_error payload)
                \<and> m = FALLBACK_MESSAGE)
         \<or> (\<exists>e. json_body r = Inl e \<and> instanceofError e \<and> message e = m \<and> m \<noteq> [])"
  shows "returned (submit_resume (Inr r) p) \<and>
         errorBox (page_of (submit_resume (Inr r) p)) =
           map_option (\<lambda>b. \<lparr>textContent = m, hidden = False\<rparr>) (errorBox p) \<and>
         (errorBox p \<noteq> None \<longrightarrow>
            barcodeInput (page_of (submit_resume (Inr r) p)) =
              map_option (\<lambda>i. i\<lparr>has_error := True\<rparr>) (barcodeInput p)) \<and>
         loadingOverlay (page_of (submit_resume (Inr r) p)) =
           map_option (\<lambda>h. True) (loadingOverlay p)"
proof -
  have "\<exists>e. try_block (Inr r) p = Threw e p \<and> instanceofError e \<and> message e = m \<and> m \<noteq> []"
    using assms(2)
  proof (elim disjE exE conjE)
    fix payload
    assume b: "json_body r = Inr payload" and "optional_error payload = Some (JStr m)" "m \<noteq> []"
    then have "toString (or_else (optional_error payload) (JStr FALLBACK_MESSAGE)) = Inr m"
      by simp
    then have "try_block (Inr r) p = Threw (Error m) p"
      by (rule try_block_server_error [OF assms(1) b])
    then show ?thesis using \<open>m \<noteq> []\<close> by simp
  next
    fix payload
    assume b: "json_body r = Inr payload" and "\<not> truthy_opt (optional_error payload)"
      "m = FALLBACK_MESSAGE"
    then have "toString (or_else (optional_error payload) (JStr FALLBACK_MESSAGE)) = Inr m"
      by (simp add: optional_error_cases)
    then have "try_block (Inr r) p = Threw (Error m) p"
      by (rule try_block_server_error [OF assms(1) b])
    then show ?thesis using \<open>m = FALLBACK_MESSAGE\<close> by (simp add: FALLBACK_MESSAGE_nonempty)
  next
    fix e
    assume "json_body r = Inl e" "instanceofError e" "message e = m" "m \<noteq> []"
    then show ?thesis by (auto simp: try_block_body_rejected)
  qed
  then obtain e where "try_block (Inr r) p = Threw e p" "instanceofError e" "message e = m" "m \<noteq> []"
    by blast
  from submit_resume_shows_error [OF this] show ?thesis
    by simp
qed

text \<open>The body \<open>{"error":"not found"}\<close> with status 404 shows exactly \<open>not found\<close>.\<close>

theorem server_error_is_shown_witness:
  "\<not> ok not_found_response \<and>
   json_body not_found_response = Inr (JObj [(js ''error'', JStr (js ''not found''))]) \<and>
   optional_error (JObj [(js ''error'', JStr (js ''not found''))]) = Some (JStr (js ''not found'')) \<and>
   js ''not found'' \<noteq> [] \<and>
   errorBox (page_of (submit_resume (Inr not_found_response) requested_page)) =
     Some \<lparr>textContent = js ''not found'', hidden = False\<rparr> \<and>
   barcodeInput (page_of (submit_resume (Inr not_found_response) requested_page)) =
     Some \<lparr>input_value = js ''X1'', has_error = True\<rparr> \<and>
   loadingOverlay (page_of (submit_resume (Inr not_found_response) requested_page)) = Some True"
proof -
  have "(\<exists>payload. json_body not_found_response = Inr payload \<and>
            optional_error payload = Some (JStr (js ''not found'')) \<and> js ''not found'' \<noteq> [])
         \<or> (\<exists>payload. json_body not_found_response = Inr payload \<and>
                \<not> truthy_opt (optional_error payload) \<and> js ''not found'' = FALLBACK_MESSAGE)
         \<or> (\<exists>e. json_body not_found_response = Inl e \<and> instanceofError e \<and>
                message e = js ''not found'' \<and> js ''not found'' \<noteq> [])"
    using not_found_response_facts by blast
  from server_error_is_shown [OF not_found_response_facts(1) this, of requested_page]
  show ?thesis
    by (simp add: not_found_response_facts requested_page_fields)
qed

text \<open>
  Claim C3 as stated fails twice.  A 502 whose body is not JSON has no \<open>error\<close> field,
  yet the region shows the parser's message and not the generic fallback.  A 404 whose
  \<open>error\<close> field is present and is the empty string shows the fallback, not the field.
\<close>

theorem server_error_is_shown_counterexample:
  "\<not> ok bad_gateway_response \<and>
   errorBox (page_of (submit_resume (Inr bad_gateway_response) requested_page)) =
     Some \<lparr>textContent = js ''Unexpected token < in JSON at position 0'', hidden = False\<rparr> \<and>
   js ''Unexpected token < in JSON at position 0'' \<noteq> FALLBACK_MESSAGE \<and>
   \<not> ok empty_error_response \<and>
   json_body empty_error_response = Inr (JObj [(js ''error'', JStr [])]) \<and>
   get (JObj [(js ''error'', JStr [])]) (js ''error'') = Inr (Some (JStr [])) \<and>
   errorBox (page_of (submit_resume (Inr empty_error_response) requested_page)) =
     Some \<lparr>textContent = FALLBACK_MESSAGE, hidden = False\<rparr> \<and>
   FALLBACK_MESSAGE \<noteq> []"
proof -
  have 1: "try_block (Inr bad_gateway_response) requested_page =
             Threw (SyntaxError (js ''Unexpected token < in JSON at position 0'')) requested_page"
    by (simp add: try_block_def bad_gateway_response_def)
  have 2: "try_block (Inr empty_error_response) requested_page =
             Threw (Error FALLBACK_MESSAGE) requested_page"
    by (simp add: try_block_def empty_error_response_def ok_def optional_error_def)
  have 3: "js ''Unexpected token < in JSON at position 0'' \<noteq> FALLBACK_MESSAGE"
    "js ''Unexpected token < in JSON at position 0'' \<noteq> []"
    by (simp_all add: js_def FALLBACK_MESSAGE_def)
  show ?thesis
    by (simp add: submit_resume_failure [OF 1] submit_resume_failure [OF 2] 3
        requested_page_fields FALLBACK_MESSAGE_nonempty)
       (simp add: bad_gateway_response_def empty_error_response_def ok_def)
qed

subsection \<open>The loading indicator\<close>

text \<open>
  Claim C4, as amended.  Whatever the network answered (a rejected \<open>fetch\<close>, an
  unreadable body, a server error or a success) and whatever the page looked like
  when the answer came, the resumed handler returns with the loading indicator
  hidden.  The validation exit does not touch the indicator: it leaves it as it
  found it.
\<close>

theorem loading_off_after_request:
  "returned (submit_resume fetched p) \<and>
   loadingOverlay (page_of (submit_resume fetched p)) = map_option (\<lambda>h. True) (loadingOverlay p) \<and>
   (is_Completed (submit_begin p) \<longrightarrow>
      loadingOverlay (page_of (outcome_of (submit_begin p))) = loadingOverlay p)"
proof -
  have "loadingOverlay (page_of out) = loadingOverlay p" if "submit_begin p = Completed out" for out
    using submit_begin_Completed [OF that] by simp
  then show ?thesis
    by (cases "submit_begin p") (simp_all add: submit_resume_returned submit_resume_loadingOverlay)
qed

text \<open>
  On the example page: the blank field leaves the hidden indicator hidden, and the
  answer to the request for \<open>X1\<close> hides the indicator that the request had shown.
\<close>

theorem loading_off_after_request_witness:
  "is_Completed (submit_begin blank_page) \<and>
   loadingOverlay (page_of (outcome_of (submit_begin blank_page))) = Some True \<and>
   loadingOverlay requested_page = Some False \<and>
   loadingOverlay (page_of (submit_resume (Inr ok_response) requested_page)) = Some True"
proof -
  have a: "hasFetch blank_page"
    and b: "barcodeInput blank_page = Some \<lparr>input_value = js ''   '', has_error = False\<rparr>"
    and c: "loadingOverlay blank_page = Some True"
    by (simp_all add: blank_page_eq example_page_def barcodeInput_def)
  have d: "trim (input_value \<lparr>input_value = js ''   '', has_error = False\<rparr>) = []"
    by (simp add: trim_blanks)
  have e: "is_Completed (submit_begin blank_page)"
    by (simp add: submit_begin_validation [OF a b d])
  have f: "loadingOverlay requested_page = Some False"
    by (simp add: requested_page_eq)
  show ?thesis
    using loading_off_after_request [of "Inr ok_response" requested_page]
      loading_off_after_request [of "Inr ok_response" blank_page] e
    by (simp add: c f)
qed

text \<open>
  Claim C4 as stated fails on the validation exit.  The user submits \<open>X1\<close>, which
  shows the indicator; while that request is under way the user empties the field
  and submits again.  The second run of the handler ends on the validation path
  with the indicator still shown.
\<close>

theorem loading_stays_on_counterexample:
  "is_Awaiting (submit_begin example_page) \<and>
   loadingOverlay (pending (submit_begin example_page)) = Some False \<and>
   revisited_page = page_of (user_types [] (pending (submit_begin example_page))) \<and>
   is_Completed (submit_begin revisited_page) \<and>
   loadingOverlay (page_of (outcome_of (submit_begin revisited_page))) = Some False"
proof -
  have a: "hasFetch revisited_page"
    and b: "barcodeInput revisited_page = Some \<lparr>input_value = [], has_error = False\<rparr>"
    and c: "loadingOverlay revisited_page = Some False"
    by (simp_all add: revisited_page_eq example_page_def barcodeInput_def)
  have d: "trim (input_value \<lparr>input_value = [], has_error = False\<rparr>) = []"
    by (simp add: trim_blanks)
  show ?thesis
    by (simp add: submit_begin_validation [OF a b d] c requested_page_eq(1))
       (simp add: revisited_page_def requested_page_def requested_page_eq(1))
qed

subsection \<open>Hydration\<close>



text \<open>
  Claim C10, as amended.  When both scripts are present, the first parsing to a
  TrackingResult and the second to a truthy value whose string form is \<open>s\<close> (a
  non-empty JSON string is its own string form), hydration is the full render of the
  result, the clearing of the success region and then \<open>showError\<close> on top of that.  It returns; the views
  are those of the render; the error region shows \<open>s\<close> and is visible; the barcode
  field is flagged when there is an error region; the success region is hidden.
\<close>

theorem hydration_shows_result_then_error:
  assumes "initial_tracking p = Some content" and "trim content \<noteq> []"
    and "parse (trim content) = Inr data" and "is_TrackingResult data"
    and "initial_error p = Some econtent" and "trim econtent \<noteq> []"
    and "parse (trim econtent) = Inr e" and "truthy e" and "toString e = Inr s"
  shows "hydrateInitialState parse p =
           showError e (clearSuccess (page_of (renderResult data p))) \<and>
         returned (hydrateInitialState parse p) \<and>
         summaryContainer (page_of (hydrateInitialState parse p)) =
           summaryContainer (page_of (renderResult data p)) \<and>
         timelineContainer (page_of (hydrateInitialState parse p)) =
           timelineContainer (page_of (renderResult data p)) \<and>
         rawSection (page_of (hydrateInitialState parse p)) =
           rawSection (page_of (renderResult data p)) \<and>
         errorBox (page_of (hydrateInitialState parse p)) =
           map_option (\<lambda>b. \<lparr>textContent = s, hidden = False\<rparr>) (errorBox p) \<and>
         (errorBox p \<noteq> None \<longrightarrow>
            barcodeInput (page_of (hydrateInitialState parse p)) =
              map_option (\<lambda>i. i\<lparr>has_error := True\<rparr>) (barcodeInput p)) \<and>
         successBox (page_of (hydrateInitialState parse p)) =
           map_option (\<lambda>b. \<lparr>textContent = [], hidden = True\<rparr>) (successBox p)"
proof -
  have rd: "readJSONScript parse (initial_tracking p) = data"
    using assms(1-3) by (simp add: readJSONScript_def)
  have re: "readJSONScript parse (initial_error p) = e"
    using assms(5-7) by (simp add: readJSONScript_def)
  have h: "hydrateInitialState parse p =
             showError e (clearSuccess (page_of (renderResult data p)))"
    by (rule hydrate_with_error [OF rd assms(4) re assms(8)])
  have ts: "toString (or_else (Some e) (JStr [])) = Inr s"
    using assms(8,9) by simp
  note se = showError_value [OF ts]
  note hv = hydrate_views [OF rd assms(4)]
  have eb: "errorBox (page_of (hydrateInitialState parse p)) =
           map_option (\<lambda>b. \<lparr>textContent = s, hidden = False\<rparr>) (errorBox p)"
  proof (cases "resultsPanel p")
    case None
    then show ?thesis by (simp add: h se assms(8) renderResult_no_panel)
  next
    case (Some a)
    then show ?thesis
      by (simp add: h se assms(8) renderResult_views [OF assms(4) Some] option.map_comp o_def)
  qed
  have bi: "barcodeInput (page_of (hydrateInitialState parse p)) =
              map_option (\<lambda>i. i\<lparr>has_error := True\<rparr>) (barcodeInput p)" if "errorBox p \<noteq> None"
    using that renderResult_barcodeInput_any [OF assms(4), of True p]
    by (auto simp: h se assms(8) renderResult_errorBox_any [OF assms(4)])
  show ?thesis
    using h se(1) hv eb bi by simp
qed

text \<open>The example page with the example result and the error \<open>bad code\<close> embedded.\<close>

theorem hydration_shows_result_then_error_witness:
  "initial_tracking hydrated_page = Some (JSON_stringify example_result 0) \<and>
   trim (JSON_stringify example_result 0) \<noteq> [] \<and>
   example_parse (trim (JSON_stringify example_result 0)) = Inr example_result \<and>
   is_TrackingResult example_result \<and>
   initial_error hydrated_page = Some example_error_text \<and>
   trim example_error_text \<noteq> [] \<and>
   example_parse (trim example_error_text) = Inr (JStr (js ''bad code'')) \<and>
   truthy (JStr (js ''bad code'')) \<and> toString (JStr (js ''bad code'')) = Inr (js ''bad code'') \<and>
   returned (hydrateInitialState example_parse hydrated_page) \<and>
   errorBox (page_of (hydrateInitialState example_parse hydrated_page)) =
     Some \<lparr>textContent = js ''bad code'', hidden = False\<rparr> \<and>
   barcodeInput (page_of (hydrateInitialState example_parse hydrated_page)) =
     Some \<lparr>input_value = js ''X1'', has_error = True\<rparr> \<and>
   successBox (page_of (hydrateInitialState example_parse hydrated_page)) =
     Some \<lparr>textContent = [], hidden = True\<rparr>"
proof -
  have ne: "trim (JSON_stringify example_result 0) \<noteq> []" "trim example_error_text \<noteq> []"
    by (simp_all add: example_tracking_text example_error_text_facts)
  have tr: "truthy (JStr (js ''bad code''))"
    by (simp add: js_def)
  have ts: "toString (JStr (js ''bad code'')) = Inr (js ''bad code'')"
    by simp
  from hydration_shows_result_then_error [where parse = example_parse, OF hydrated_page_fields(1) ne(1) example_parse_facts(1)
      example_result_TrackingResult hydrated_page_fields(2) ne(2) example_parse_facts(2) tr ts,
      THEN conjunct2]
  moreover have "js ''bad code'' \<noteq> []"
    by (simp add: js_def)
  ultimately show ?thesis
    by (simp add: hydrated_page_fields ne example_parse_facts example_result_TrackingResult)
qed

text \<open>
  Claim C10 as stated fails when the error payload is present and falsy.  With the
  empty JSON string in the \<open>initial-error\<close> script (and the example result in the
  other), \<open>if (initialError)\<close> skips \<open>showError\<close>: after hydration the error region
  is empty and hidden and the barcode field is not flagged.
\<close>

theorem hydration_empty_error_counterexample:
  "initial_tracking empty_error_page = Some (JSON_stringify example_result 0) \<and>
   example_parse (trim (JSON_stringify example_result 0)) = Inr example_result \<and>
   is_TrackingResult example_result \<and>
   initial_error empty_error_page = Some empty_error_text \<and>
   empty_error_text = [0x22, 0x22] \<and>
   example_parse (trim empty_error_text) = Inr (JStr []) \<and>
   returned (hydrateInitialState example_parse empty_error_page) \<and>
   errorBox (page_of (hydrateInitialState example_parse empty_error_page)) =
     Some \<lparr>textContent = [], hidden = True\<rparr> \<and>
   barcodeInput (page_of (hydrateInitialState example_parse empty_error_page)) =
     Some \<lparr>input_value = js ''X1'', has_error = False\<rparr>"
proof -
  have rd: "readJSONScript example_parse (initial_tracking empty_error_page) = example_result"
    by (simp add: readJSONScript_def empty_error_page_fields example_tracking_text
        example_parse_def)
  have re: "readJSONScript example_parse (initial_error empty_error_page) = JStr []"
    by (simp add: readJSONScript_def empty_error_page_fields empty_error_text_facts
        example_parse_def)
  have h: "hydrateInitialState example_parse empty_error_page =
             Returned (clearSuccess (page_of (renderResult example_result empty_error_page)))"
    by (simp add: hydrate_result [OF rd example_result_TrackingResult] re Let_def)
  note v = renderResult_views [OF example_result_TrackingResult empty_error_page_fields(3)]
  show ?thesis
    by (simp add: h v empty_error_page_fields example_parse_facts example_parse_empty_error
        example_result_TrackingResult)
       (simp add: empty_error_text_def)
qed

subsection \<open>Missing elements\<close>

text \<open>
  Claim C9, as amended.  A missing element never makes the controller throw: the
  resumed submit handler, the input listener and the validation exit return on every
  page, and so does the render of a TrackingResult.  Every operation on a missing
  element is a no-op.  For the summary container, the timeline container, the raw
  section and the success region nothing else changes: the render of a TrackingResult
  leaves the page exactly as it would with the element present, except for that
  element; likewise a successful submission without the loading overlay.  A missing
  results panel, however, turns the whole render into a no-op, a missing error region
  turns all of \<open>showError\<close> into one (flagging the field and revealing the panel
  included), and without the form neither listener does anything.
\<close>

theorem absent_elements_degrade:
  "returned (submit_resume fetched p) \<and> returned (on_input p) \<and>
   (is_Completed (submit_begin p) \<longrightarrow> returned (outcome_of (submit_begin p))) \<and>
   (is_TrackingResult data \<longrightarrow> returned (renderResult data p)) \<and>
   (loadingOverlay p = None \<longrightarrow> toggleLoading state p = p) \<and>
   (successBox p = None \<longrightarrow> clearSuccess p = p \<and> showSuccess m p = p) \<and>
   (errorBox p = None \<longrightarrow> showError msg p = Returned p) \<and>
   (summaryContainer p = None \<longrightarrow> renderSummary data p = Returned p) \<and>
   (timelineContainer p = None \<longrightarrow> renderTimeline ev p = Returned p) \<and>
   (rawSection p = None \<or> rawPre p = None \<longrightarrow> renderRawResponse data p = Returned p) \<and>
   (form p = None \<longrightarrow> submit_begin p = NotRegistered \<and> on_input p = Returned p) \<and>
   (resultsPanel p = None \<longrightarrow> renderResult data p = Returned p) \<and>
   (is_TrackingResult data \<and> resultsPanel p \<noteq> None \<longrightarrow>
      page_of (renderResult data (p\<lparr>summaryContainer := None\<rparr>)) =
        (page_of (renderResult data p))\<lparr>summaryContainer := None\<rparr> \<and>
      page_of (renderResult data (p\<lparr>timelineContainer := None\<rparr>)) =
        (page_of (renderResult data p))\<lparr>timelineContainer := None\<rparr> \<and>
      page_of (renderResult data (p\<lparr>rawSection := None\<rparr>)) =
        (page_of (renderResult data p))\<lparr>rawSection := None\<rparr> \<and>
      page_of (renderResult data (p\<lparr>successBox := None\<rparr>)) =
        (page_of (renderResult data p))\<lparr>successBox := None\<rparr> \<and>
      (\<forall>r. ok r \<and> json_body r = Inr data \<longrightarrow>
         page_of (submit_resume (Inr r) (p\<lparr>loadingOverlay := None\<rparr>)) =
           (page_of (submit_resume (Inr r) p))\<lparr>loadingOverlay := None\<rparr>))"
  using absent_is_noop [of p] renderResult_without [of data p]
    submit_resume_without_loading [of _ data p]
  by (auto simp: submit_resume_returned on_input_returned submit_begin_returned
      renderResult_returned renderResult_no_panel)

text \<open>A page with no element at all, and the example page with one element taken away.\<close>

theorem absent_elements_degrade_witness:
  "form bare_page = None \<and> resultsPanel bare_page = None \<and> summaryContainer bare_page = None \<and>
   timelineContainer bare_page = None \<and> rawSection bare_page = None \<and>
   errorBox bare_page = None \<and> successBox bare_page = None \<and> loadingOverlay bare_page = None \<and>
   toggleLoading True bare_page = bare_page \<and>
   showError (JStr VALIDATION_MESSAGE) bare_page = Returned bare_page \<and>
   renderResult example_result bare_page = Returned bare_page \<and>
   submit_begin bare_page = NotRegistered \<and>
   is_TrackingResult example_result \<and> resultsPanel example_page \<noteq> None \<and>
   returned (renderResult example_result example_page) \<and>
   page_of (renderResult example_result (example_page\<lparr>summaryContainer := None\<rparr>)) =
     (page_of (renderResult example_result example_page))\<lparr>summaryContainer := None\<rparr> \<and>
   ok ok_response \<and> json_body ok_response = Inr example_result \<and>
   page_of (submit_resume (Inr ok_response) (example_page\<lparr>loadingOverlay := None\<rparr>)) =
     (page_of (submit_resume (Inr ok_response) example_page))\<lparr>loadingOverlay := None\<rparr>"
  using absent_elements_degrade
      [of "Inr ok_response" bare_page example_result True SUCCESS_MESSAGE
          "JStr VALIDATION_MESSAGE" None]
    absent_elements_degrade
      [of "Inr ok_response" example_page example_result True SUCCESS_MESSAGE
          "JStr VALIDATION_MESSAGE" None]
  by (simp add: bare_page_fields example_page_fields example_result_TrackingResult
      ok_response_facts)

text \<open>
  Claim C9 as stated fails for the results panel.  On the example page without that
  panel a successful answer leaves the summary empty and the success region hidden,
  while with the panel the summary is drawn and the success message shown: the
  missing panel disables the other features as well.
\<close>

theorem missing_panel_counterexample:
  "panelless_page = example_page\<lparr>resultsPanel := None\<rparr> \<and>
   ok ok_response \<and> json_body ok_response = Inr example_result \<and>
   summaryContainer (page_of (submit_resume (Inr ok_response) panelless_page)) = Some [] \<and>
   successBox (page_of (submit_resume (Inr ok_response) panelless_page)) =
     Some \<lparr>textContent = [], hidden = True\<rparr> \<and>
   summaryContainer (page_of (submit_resume (Inr ok_response) example_page)) =
     Some [summary_entry 0 LABEL_BARCODE (js ''X1''),
           summary_entry 1 LABEL_CURRENT_STATUS (js ''Delivered'')] \<and>
   successBox (page_of (submit_resume (Inr ok_response) example_page)) =
     Some \<lparr>textContent = SUCCESS_MESSAGE, hidden = False\<rparr>"
proof -
  have np: "resultsPanel panelless_page = None"
    by (simp add: panelless_page_def)
  have a: "submit_resume (Inr ok_response) panelless_page =
             Returned (toggleLoading False panelless_page)"
    using submit_resume_success [OF ok_response_facts, of panelless_page]
    by (simp add: renderResult_no_panel [OF np])
  have b: "submit_resume (Inr ok_response) example_page =
             Returned (toggleLoading False (page_of (renderResult example_result example_page)))"
    by (rule submit_resume_success [OF ok_response_facts
          renderResult_returned [OF example_result_TrackingResult]])
  note v = renderResult_views [OF example_result_TrackingResult example_page_fields(1)]
  show ?thesis
    by (simp add: a b v example_result_views example_page_fields ok_response_facts)
       (simp add: panelless_page_def example_page_def)
qed

end
